theory Spec2Isabelle
  imports
    Complex_Main
    "HOL-Library.AList"
    "HOL-Library.Char_ord"
    "HOL-Library.List_Lexorder"
    "HOL-Library.Product_Lexorder"
    "HOL-Library.Sublist"
begin

section \<open>Python strings\<close>

text \<open>
  A Python \<open>str\<close> is modelled as a \<^typ>\<open>string\<close> whose characters are the code points
  below 256 (ASCII and Latin-1). \<open>str.lower\<close>, \<open>str.isdigit\<close> and \<open>str.replace\<close> are
  written out for that range; \<open>kw in text\<close> on strings is \<^const>\<open>sublist\<close>; the
  comparison of two strings is the lexicographic order on code points.
\<close>

definition lower_char :: "char \<Rightarrow> char" where
  "lower_char c =
     (let n = (of_char c :: nat)
      in if (65 \<le> n \<and> n \<le> 90) \<or> (192 \<le> n \<and> n \<le> 214) \<or> (216 \<le> n \<and> n \<le> 222)
         then char_of (n + 32) else c)"

definition lower :: "string \<Rightarrow> string" where
  "lower s = map lower_char s"

definition isdigit_char :: "char \<Rightarrow> bool" where
  "isdigit_char c =
     (let n = (of_char c :: nat)
      in (48 \<le> n \<and> n \<le> 57) \<or> n = 178 \<or> n = 179 \<or> n = 185)"

text \<open>\<open>s.isdigit()\<close> on a whole string: non-empty and every character a digit.\<close>

definition isdigit :: "string \<Rightarrow> bool" where
  "isdigit s = (s \<noteq> [] \<and> list_all isdigit_char s)"

text \<open>\<open>s.replace(old, new)\<close> for a one-character \<open>old\<close>.\<close>

definition replace_char :: "char \<Rightarrow> string \<Rightarrow> string \<Rightarrow> string" where
  "replace_char old new s = concat (map (\<lambda>c. if c = old then new else [c]) s)"

text \<open>Decimal rendering of integers, as \<open>str(n)\<close> and f-strings print them.\<close>

definition digit_char :: "nat \<Rightarrow> char" where
  "digit_char d = char_of (48 + d)"

fun str_nat :: "nat \<Rightarrow> string" where
  "str_nat n = (if n < 10 then [digit_char n] else str_nat (n div 10) @ [digit_char (n mod 10)])"

declare str_nat.simps [simp del]

definition str_int :: "int \<Rightarrow> string" where
  "str_int i = (if i < 0 then CHR ''-'' # str_nat (nat (- i)) else str_nat (nat i))"

section \<open>JSON values and \<open>json.dumps\<close>\<close>

datatype json =
    JNull
  | JBool bool
  | JInt int
  | JStr string
  | JList "json list"
  | JDict "(string \<times> json) list"

definition hex_char :: "nat \<Rightarrow> char" where
  "hex_char d = (if d < 10 then char_of (48 + d) else char_of (87 + d))"

text \<open>
  The escaping of \<open>json.dumps\<close> with its default \<open>ensure_ascii=True\<close>: printable ASCII
  stays, the quote and the backslash get a backslash, the five short escapes, and every
  other code point becomes \<open>\uXXXX\<close> in lower-case hexadecimal.
\<close>

definition escape_char :: "char \<Rightarrow> string" where
  "escape_char c =
     (let n = (of_char c :: nat)
      in if n = 34 then [char_of (92::nat), char_of (34::nat)]
         else if n = 92 then [char_of (92::nat), char_of (92::nat)]
         else if n = 10 then [char_of (92::nat), CHR ''n'']
         else if n = 13 then [char_of (92::nat), CHR ''r'']
         else if n = 9 then [char_of (92::nat), CHR ''t'']
         else if n = 8 then [char_of (92::nat), CHR ''b'']
         else if n = 12 then [char_of (92::nat), CHR ''f'']
         else if 32 \<le> n \<and> n \<le> 126 then [c]
         else [char_of (92::nat), CHR ''u'', CHR ''0'', CHR ''0'',
               hex_char (n div 16), hex_char (n mod 16)])"

definition dumps_str :: "string \<Rightarrow> string" where
  "dumps_str s = [char_of (34::nat)] @ concat (map escape_char s) @ [char_of (34::nat)]"

text \<open>\<open>', '.join(parts)\<close>.\<close>

fun join_comma :: "string list \<Rightarrow> string" where
  "join_comma [] = []"
| "join_comma [x] = x"
| "join_comma (x # y # ys) = x @ '', '' @ join_comma (y # ys)"

fun json_dumps :: "json \<Rightarrow> string" where
  "json_dumps JNull = ''null''"
| "json_dumps (JBool b) = (if b then ''true'' else ''false'')"
| "json_dumps (JInt i) = str_int i"
| "json_dumps (JStr s) = dumps_str s"
| "json_dumps (JList xs) = ''['' @ join_comma (map json_dumps xs) @ '']''"
| "json_dumps (JDict kvs) =
     ''{'' @ join_comma (map (\<lambda>(k, v). dumps_str k @ '': '' @ json_dumps v) kvs) @ ''}''"

section \<open>Exceptions\<close>

datatype error = ValueError | TypeError | AttributeError | ZeroDivisionError

text \<open>Sequencing of computations that may raise: the first exception ends the run.\<close>

definition bind :: "error + 'a \<Rightarrow> ('a \<Rightarrow> error + 'b) \<Rightarrow> error + 'b" where
  "bind m f = (case m of Inl e \<Rightarrow> Inl e | Inr x \<Rightarrow> f x)"

text \<open>A \<open>for\<close> loop whose body appends to a list and may raise.\<close>

fun for_each :: "('a \<Rightarrow> error + 'b list) \<Rightarrow> 'a list \<Rightarrow> error + 'b list" where
  "for_each f [] = Inr []"
| "for_each f (x # xs) = bind (f x) (\<lambda>ys. bind (for_each f xs) (\<lambda>zs. Inr (ys @ zs)))"

text \<open>A \<open>for\<close> loop whose body adds to a counter and may raise.\<close>

fun count_each :: "('a \<Rightarrow> error + nat) \<Rightarrow> 'a list \<Rightarrow> error + nat" where
  "count_each f [] = Inr 0"
| "count_each f (x # xs) = bind (f x) (\<lambda>m. bind (count_each f xs) (\<lambda>n. Inr (m + n)))"

section \<open>\<open>datetime\<close>\<close>

text \<open>
  A \<open>datetime\<close> value: the microseconds from 1970-01-01T00:00:00 to its own wall-clock
  reading, and its UTC offset in microseconds when it is timezone-aware (\<open>None\<close> for a
  naive value). A \<open>timedelta\<close> is a number of microseconds. The calendar range of
  \<open>datetime\<close> (years 1 to 9999) is not modelled.
\<close>

record datetime =
  wall :: int
  utcoffset :: "int option"

definition day_us :: int where
  "day_us = 86400000000"

text \<open>\<open>a - b\<close>: raises \<open>TypeError\<close> when one operand is naive and the other aware.\<close>

definition dt_sub :: "datetime \<Rightarrow> datetime \<Rightarrow> error + int" where
  "dt_sub a b =
     (case (utcoffset a, utcoffset b) of
        (None, None) \<Rightarrow> Inr (wall a - wall b)
      | (Some oa, Some ob) \<Rightarrow> Inr ((wall a - oa) - (wall b - ob))
      | _ \<Rightarrow> Inl TypeError)"

text \<open>\<open>a <= b\<close>: raises \<open>TypeError\<close> when one operand is naive and the other aware.\<close>

definition dt_le :: "datetime \<Rightarrow> datetime \<Rightarrow> error + bool" where
  "dt_le a b =
     (case (utcoffset a, utcoffset b) of
        (None, None) \<Rightarrow> Inr (wall a \<le> wall b)
      | (Some oa, Some ob) \<Rightarrow> Inr (wall a - oa \<le> wall b - ob)
      | _ \<Rightarrow> Inl TypeError)"

text \<open>\<open>timedelta.days\<close>: the floor of the difference in days.\<close>

definition td_days :: "int \<Rightarrow> int" where
  "td_days td = td div day_us"

text \<open>\<open>a + timedelta(days=n)\<close>.\<close>

definition add_days :: "datetime \<Rightarrow> int \<Rightarrow> datetime" where
  "add_days a n = a\<lparr>wall := wall a + n * day_us\<rparr>"

text \<open>\<open>a.weekday()\<close>: Monday is 0; 1970-01-01 was a Thursday.\<close>

definition weekday :: "datetime \<Rightarrow> int" where
  "weekday a = (wall a div day_us + 3) mod 7"

text \<open>
  The library functions and the clock are parameters of the model:
  \<open>datetime.fromisoformat\<close> (\<open>None\<close> is its \<open>ValueError\<close>), \<open>datetime.isoformat\<close>, and the
  reading of \<open>datetime.now()\<close>, a naive value. One call of the tracker reads the clock
  several times within the same instant; the model gives them one reading.
\<close>

record env =
  fromisoformat :: "string \<Rightarrow> datetime option"
  isoformat :: "datetime \<Rightarrow> string"
  now :: datetime

text \<open>\<open>datetime.fromisoformat(s.replace('Z', '+00:00'))\<close>.\<close>

definition parse_date :: "env \<Rightarrow> string \<Rightarrow> error + datetime" where
  "parse_date E s =
     (case fromisoformat E (replace_char CHR ''Z'' ''+00:00'' s) of
        None \<Rightarrow> Inl ValueError
      | Some d \<Rightarrow> Inr d)"

section \<open>The pipeline document\<close>

text \<open>
  The persisted document is a dictionary of dictionaries. Its entries are modelled as
  records of optional fields: \<open>None\<close> is an absent key, and \<open>d.get(k, default)\<close> reads a
  field with \<^const>\<open>case_option\<close>. Dictionaries that are iterated are association lists
  in insertion order; \<open>d[k] = v\<close> on them is \<^const>\<open>AList.update\<close>, which keeps the place
  of an existing key and appends a new one.
\<close>

record email =
  send_date :: "string option"
  template :: "string option"
  response_received :: "bool option"
  follow_up_sent :: "bool option"

record interview =
  date :: "string option"
  scheduled_date :: "string option"
  itype :: "string option"
  stage :: "string option"
  interviewer :: "string option"
  outcome :: "string option"
  feedback :: "string option"
  next_steps :: "string option"

record company =
  name :: "string option"
  research_date :: "string option"
  role_title :: "string option"
  priority_score :: "int option"
  priority_breakdown :: "(string \<times> int) list option"
  qualification_passed :: "bool option"
  research_completed :: "bool option"
  application_generated :: "bool option"
  emails_sent :: "email list option"
  interviews :: "interview list option"
  status :: "string option"
  offer_received :: "bool option"
  research_data :: "(string \<times> string) list"
  network_opportunities :: "json option"

record stats =
  total_researched :: int
  total_applied :: int
  response_rate :: rat
  interviews_scheduled :: int
  offers_received :: int

record pipeline =
  companies :: "(string \<times> company) list"
  stats :: stats
  next_actions :: "json list"

text \<open>\<open>d.get(k, default)\<close> and the truth value of an optional flag, string or list.\<close>

definition get :: "'a option \<Rightarrow> 'a \<Rightarrow> 'a" where
  "get field dflt = (case field of None \<Rightarrow> dflt | Some v \<Rightarrow> v)"

definition truthy :: "bool option \<Rightarrow> bool" where
  "truthy field = (field = Some True)"

section \<open>The orchestrator\<close>

record config =
  min_priority_score :: int

text \<open>
  A field name with the value written to it, as \<open>_update_pipeline_status\<close> receives them:
  one constructor for each key of a company record.
\<close>

datatype field_value =
    Name string
  | Research_date string
  | Role_title "string option"
  | Priority_score int
  | Priority_breakdown "(string \<times> int) list"
  | Qualification_passed bool
  | Research_completed bool
  | Application_generated bool
  | Emails_sent "email list"
  | Interviews "interview list"
  | Status string
  | Offer_received bool
  | Network_opportunities json

fun field_name :: "field_value \<Rightarrow> string" where
  "field_name (Name _) = ''name''"
| "field_name (Research_date _) = ''research_date''"
| "field_name (Role_title _) = ''role_title''"
| "field_name (Priority_score _) = ''priority_score''"
| "field_name (Priority_breakdown _) = ''priority_breakdown''"
| "field_name (Qualification_passed _) = ''qualification_passed''"
| "field_name (Research_completed _) = ''research_completed''"
| "field_name (Application_generated _) = ''application_generated''"
| "field_name (Emails_sent _) = ''emails_sent''"
| "field_name (Interviews _) = ''interviews''"
| "field_name (Status _) = ''status''"
| "field_name (Offer_received _) = ''offer_received''"
| "field_name (Network_opportunities _) = ''network_opportunities''"

text \<open>The truth value of the written value, as \<open>and value\<close> tests it.\<close>

fun value_truthy :: "field_value \<Rightarrow> bool" where
  "value_truthy (Name s) = (s \<noteq> [])"
| "value_truthy (Research_date s) = (s \<noteq> [])"
| "value_truthy (Role_title r) = (r \<noteq> None \<and> r \<noteq> Some [])"
| "value_truthy (Priority_score n) = (n \<noteq> 0)"
| "value_truthy (Priority_breakdown b) = (b \<noteq> [])"
| "value_truthy (Qualification_passed b) = b"
| "value_truthy (Research_completed b) = b"
| "value_truthy (Application_generated b) = b"
| "value_truthy (Emails_sent es) = (es \<noteq> [])"
| "value_truthy (Interviews is) = (is \<noteq> [])"
| "value_truthy (Status s) = (s \<noteq> [])"
| "value_truthy (Offer_received b) = b"
| "value_truthy (Network_opportunities j) =
     (j \<noteq> JNull \<and> j \<noteq> JBool False \<and> j \<noteq> JInt 0 \<and> j \<noteq> JStr [] \<and> j \<noteq> JList [] \<and> j \<noteq> JDict [])"

text \<open>\<open>record[field] = value\<close>.\<close>

fun set_field :: "field_value \<Rightarrow> company \<Rightarrow> company" where
  "set_field (Name s) c = c\<lparr>name := Some s\<rparr>"
| "set_field (Research_date s) c = c\<lparr>research_date := Some s\<rparr>"
| "set_field (Role_title r) c = c\<lparr>role_title := r\<rparr>"
| "set_field (Priority_score n) c = c\<lparr>priority_score := Some n\<rparr>"
| "set_field (Priority_breakdown b) c = c\<lparr>priority_breakdown := Some b\<rparr>"
| "set_field (Qualification_passed b) c = c\<lparr>qualification_passed := Some b\<rparr>"
| "set_field (Research_completed b) c = c\<lparr>research_completed := Some b\<rparr>"
| "set_field (Application_generated b) c = c\<lparr>application_generated := Some b\<rparr>"
| "set_field (Emails_sent es) c = c\<lparr>emails_sent := Some es\<rparr>"
| "set_field (Interviews is) c = c\<lparr>interviews := Some is\<rparr>"
| "set_field (Status s) c = c\<lparr>status := Some s\<rparr>"
| "set_field (Offer_received b) c = c\<lparr>offer_received := Some b\<rparr>"
| "set_field (Network_opportunities j) c = c\<lparr>network_opportunities := Some j\<rparr>"

text \<open>Whether a record carries the written value under the field's key.\<close>

fun has_field :: "field_value \<Rightarrow> company \<Rightarrow> bool" where
  "has_field (Name s) c = (name c = Some s)"
| "has_field (Research_date s) c = (research_date c = Some s)"
| "has_field (Role_title r) c = (role_title c = r)"
| "has_field (Priority_score n) c = (priority_score c = Some n)"
| "has_field (Priority_breakdown b) c = (priority_breakdown c = Some b)"
| "has_field (Qualification_passed b) c = (qualification_passed c = Some b)"
| "has_field (Research_completed b) c = (research_completed c = Some b)"
| "has_field (Application_generated b) c = (application_generated c = Some b)"
| "has_field (Emails_sent es) c = (emails_sent c = Some es)"
| "has_field (Interviews is) c = (interviews c = Some is)"
| "has_field (Status s) c = (status c = Some s)"
| "has_field (Offer_received b) c = (offer_received c = Some b)"
| "has_field (Network_opportunities j) c = (network_opportunities c = Some j)"

text \<open>
  \<open>_update_pipeline_status\<close>. \<open>save_pipeline\<close> writes the whole document to its file; the model
  returns the document that is written.
\<close>

definition update_pipeline_status :: "pipeline \<Rightarrow> string \<Rightarrow> field_value \<Rightarrow> pipeline" where
  "update_pipeline_status p company_name fv =
     (let company_key = lower company_name
      in case map_of (companies p) company_key of
           None \<Rightarrow> p
         | Some c \<Rightarrow>
             (let c1 = set_field fv c;
                  c2 = (if field_name fv = ''application_generated'' \<and> value_truthy fv
                        then c1\<lparr>status := Some ''applied''\<rparr>
                        else if field_name fv = ''emails_sent'' \<and> value_truthy fv
                        then c1\<lparr>status := Some ''outreach_sent''\<rparr>
                        else c1)
              in p\<lparr>companies := AList.update company_key c2 (companies p)\<rparr>))"

text \<open>The progression of \<open>status\<close> values; the side branches and unknown strings have no rank.\<close>

definition status_rank :: "string \<Rightarrow> nat option" where
  "status_rank s =
     (if s = ''researching'' then Some 0
      else if s = ''researched'' then Some 1
      else if s = ''applied'' then Some 2
      else if s = ''outreach_sent'' then Some 3
      else if s = ''responded'' then Some 4
      else if s = ''interviewing'' then Some 5
      else if s = ''offered'' then Some 6
      else if s = ''hired'' then Some 7
      else None)"

definition rank_of :: "company \<Rightarrow> nat option" where
  "rank_of c = (case status c of None \<Rightarrow> None | Some s \<Rightarrow> status_rank s)"

text \<open>\<open>_analyze_network_opportunities\<close> returns a fixed dictionary of empty lists.\<close>

definition analyze_network_opportunities :: json where
  "analyze_network_opportunities =
     JDict [(''first_degree_connections'', JList []),
            (''second_degree_connections'', JList []),
            (''alumni_connections'', JList []),
            (''industry_connections'', JList []),
            (''warm_intro_paths'', JList []),
            (''recommended_outreach'', JList [])]"

text \<open>
  What \<open>research_company\<close> takes from outside: the string \<open>datetime.now().isoformat()\<close>, the
  four scores that \<open>_quick_qualification_check\<close> reads from the terminal, and the texts
  returned by \<open>_conduct_ai_research\<close>, whose keys are names of research texts.
\<close>

record research_io =
  now_iso :: string
  asked_scores :: "(string \<times> int) list"
  ai_research :: "(string \<times> string) list"

definition company_key_of :: "string \<Rightarrow> string" where
  "company_key_of company_name = replace_char CHR '' '' ''_'' (lower company_name)"

text \<open>The scores used: the given ones, each defaulting to 8, when \<open>scores\<close> is a non-empty
  dictionary, and the interactive ones otherwise.\<close>

definition priority_scores_of :: "research_io \<Rightarrow> (string \<times> int) list option \<Rightarrow> (string \<times> int) list" where
  "priority_scores_of io scores =
     (case scores of
        None \<Rightarrow> asked_scores io
      | Some sc \<Rightarrow>
          if sc = [] then asked_scores io
          else [(''role_appeal'', get (map_of sc ''role_appeal'') 8),
                (''company_fit'', get (map_of sc ''company_fit'') 8),
                (''growth_potential'', get (map_of sc ''growth_potential'') 8),
                (''likelihood'', get (map_of sc ''likelihood'') 8)])"

text \<open>\<open>research_company\<close>: the returned record and the pipeline after the call.\<close>

definition research_company ::
  "config \<Rightarrow> research_io \<Rightarrow> pipeline \<Rightarrow> string \<Rightarrow> string option \<Rightarrow> bool \<Rightarrow>
     (string \<times> int) list option \<Rightarrow> company \<times> pipeline" where
  "research_company cfg io p company_name role force_refresh scores =
     (let company_key = company_key_of company_name;
          existing = map_of (companies p) company_key
      in if \<not> force_refresh \<and> existing \<noteq> None \<and> truthy (research_completed (the existing))
         then (the existing, p)
         else
           (let priority_scores = priority_scores_of io scores;
                company_data =
                  \<lparr>name = Some company_name,
                   research_date = Some (now_iso io),
                   role_title = role,
                   priority_score = Some (sum_list (map snd priority_scores)),
                   priority_breakdown = Some priority_scores,
                   qualification_passed = Some False,
                   research_completed = Some False,
                   application_generated = Some False,
                   emails_sent = Some [],
                   interviews = Some [],
                   status = Some ''researching'',
                   offer_received = None,
                   research_data = [],
                   network_opportunities = None\<rparr>
            in if sum_list (map snd priority_scores) < min_priority_score cfg
               then
                 (let company_data = company_data\<lparr>status := Some ''disqualified''\<rparr>
                  in (company_data,
                      p\<lparr>companies := AList.update company_key company_data (companies p)\<rparr>))
               else
                 (let company_data =
                        company_data\<lparr>research_data := ai_research io,
                                      network_opportunities := Some analyze_network_opportunities,
                                      research_completed := Some True,
                                      status := Some ''researched'',
                                      qualification_passed := Some True\<rparr>
                  in (company_data,
                      p\<lparr>companies := AList.update company_key company_data (companies p),
                        stats := (stats p)\<lparr>total_researched := total_researched (stats p) + 1\<rparr>\<rparr>))))"

section \<open>The pipeline tracker: next actions\<close>

record action_item =
  priority :: string
  action :: string
  company :: string
  due_date :: string
  details :: string

text \<open>\<open>_calculate_due_date\<close>: a missing, empty or unparsable base date gives the current time.\<close>

definition calculate_due_date :: "env \<Rightarrow> string option \<Rightarrow> int \<Rightarrow> string" where
  "calculate_due_date E base_date_str days =
     (case base_date_str of
        None \<Rightarrow> isoformat E (now E)
      | Some s \<Rightarrow>
          if s = [] then isoformat E (now E)
          else (case parse_date E s of
                  Inl _ \<Rightarrow> isoformat E (now E)
                | Inr base_date \<Rightarrow> isoformat E (add_days base_date days)))"

text \<open>The research follow-up of one company.\<close>

definition research_action :: "env \<Rightarrow> string \<Rightarrow> company \<Rightarrow> action_item list" where
  "research_action E company_name c =
     (if get (status c) ''unknown'' = ''researched'' \<and> \<not> truthy (application_generated c)
      then [\<lparr>priority = ''high'',
             action = ''Generate application package'',
             company = company_name,
             due_date = calculate_due_date E (research_date c) 2,
             details = ''Research completed, ready for application generation''\<rparr>]
      else [])"

text \<open>
  The body of the loop over \<open>emails_sent\<close>. \<open>datetime.fromisoformat\<close> and the subtraction
  are not inside a \<open>try\<close>: their exceptions leave the function.
\<close>

definition email_action :: "env \<Rightarrow> string \<Rightarrow> email \<Rightarrow> error + action_item list" where
  "email_action E company_name e =
     (let send_date_str = get (send_date e) []
      in if send_date_str \<noteq> [] \<and> \<not> truthy (response_received e)
         then bind (parse_date E send_date_str) (\<lambda>sent.
              bind (dt_sub (now E) sent) (\<lambda>td.
                let days_since = td_days td
                in if days_since \<ge> 7 \<and> \<not> truthy (follow_up_sent e)
                   then Inr [\<lparr>priority = ''medium'',
                              action = ''Send follow-up email'',
                              company = company_name,
                              due_date = send_date_str,
                              details = ''Original email sent '' @ str_int days_since @ '' days ago''\<rparr>]
                   else Inr []))
         else Inr [])"

text \<open>The body of the loop over \<open>interviews\<close>.\<close>

definition interview_action :: "string \<Rightarrow> interview \<Rightarrow> action_item list" where
  "interview_action company_name i =
     (if outcome i = Some ''pending''
      then (let interview_date = get (date i) []
            in if interview_date \<noteq> []
               then [\<lparr>priority = ''high'',
                      action = ''Follow up on interview outcome'',
                      company = company_name,
                      due_date = interview_date,
                      details = get (stage i) ''Interview'' @ '' with '' @ get (interviewer i) ''TBD''\<rparr>]
               else [])
      else [])"

text \<open>The body of the loop over the companies: what one company appends to \<open>next_actions\<close>.\<close>

definition company_actions :: "env \<Rightarrow> string \<times> company \<Rightarrow> error + action_item list" where
  "company_actions E kc =
     (let company_key = fst kc;
          company_data = snd kc;
          company_name = get (name company_data) company_key
      in bind (for_each (email_action E company_name) (get (emails_sent company_data) []))
           (\<lambda>email_actions.
              Inr (research_action E company_name company_data
                   @ email_actions
                   @ concat (map (interview_action company_name)
                               (get (interviews company_data) [])))))"

text \<open>The list before it is sorted, in the order of the iteration over the companies.\<close>

definition collect_actions :: "env \<Rightarrow> pipeline \<Rightarrow> error + action_item list" where
  "collect_actions E p = for_each (company_actions E) (companies p)"

definition priority_order :: "string \<Rightarrow> nat" where
  "priority_order pr =
     (if pr = ''high'' then 3 else if pr = ''medium'' then 2 else if pr = ''low'' then 1 else 0)"

definition action_key :: "action_item \<Rightarrow> nat \<times> string" where
  "action_key x = (priority_order (priority x), due_date x)"

text \<open>
  \<open>xs.sort(key=k, reverse=True)\<close>: the list is reversed, sorted stably in ascending order
  and reversed again, so that elements with equal keys keep their order.
\<close>

definition sort_reverse :: "('a \<Rightarrow> 'k::linorder) \<Rightarrow> 'a list \<Rightarrow> 'a list" where
  "sort_reverse k xs = rev (sort_key k (rev xs))"

text \<open>\<open>_generate_next_actions\<close>.\<close>

definition generate_next_actions :: "env \<Rightarrow> pipeline \<Rightarrow> error + action_item list" where
  "generate_next_actions E p =
     bind (collect_actions E p) (\<lambda>acts. Inr (take 20 (sort_reverse action_key acts)))"

section \<open>The pipeline tracker: success metrics\<close>

text \<open>\<open>_has_received_response\<close>.\<close>

definition has_received_response :: "company \<Rightarrow> bool" where
  "has_received_response c =
     list_ex (\<lambda>e. get (response_received e) False) (get (emails_sent c) [])"

text \<open>\<open>a / b\<close> on integers. The quotient is kept exact: the rounding of floating-point
  division is not modelled.\<close>

definition truediv :: "nat \<Rightarrow> nat \<Rightarrow> error + rat" where
  "truediv a b = (if b = 0 then Inl ZeroDivisionError else Inr (of_nat a / of_nat b))"

text \<open>The counters of \<open>_generate_success_metrics\<close> after its loop over the companies.\<close>

definition total_emails :: "pipeline \<Rightarrow> nat" where
  "total_emails p = sum_list (map (\<lambda>(k, c). length (get (emails_sent c) [])) (companies p))"

definition responses_received :: "pipeline \<Rightarrow> nat" where
  "responses_received p = length (filter (\<lambda>(k, c). has_received_response c) (companies p))"

definition interviews_scheduled_count :: "pipeline \<Rightarrow> nat" where
  "interviews_scheduled_count p =
     length (filter (\<lambda>(k, c). get (interviews c) [] \<noteq> []) (companies p))"

definition total_applications :: "pipeline \<Rightarrow> nat" where
  "total_applications p =
     length (filter (\<lambda>(k, c). status c = Some ''applied'') (companies p))"

definition offers_received_count :: "pipeline \<Rightarrow> nat" where
  "offers_received_count p = length (filter (\<lambda>(k, c). truthy (offer_received c)) (companies p))"

text \<open>The three rates, each guarded by \<open>if denominator > 0 else 0\<close>.\<close>

definition email_response_rate :: "pipeline \<Rightarrow> error + rat" where
  "email_response_rate p =
     (if total_emails p > 0 then truediv (responses_received p) (total_emails p) else Inr 0)"

definition interview_conversion_rate :: "pipeline \<Rightarrow> error + rat" where
  "interview_conversion_rate p =
     (if total_applications p > 0
      then truediv (interviews_scheduled_count p) (total_applications p) else Inr 0)"

definition offer_conversion_rate :: "pipeline \<Rightarrow> error + rat" where
  "offer_conversion_rate p =
     (if interviews_scheduled_count p > 0
      then truediv (offers_received_count p) (interviews_scheduled_count p) else Inr 0)"

section \<open>The pipeline tracker: state and helpers\<close>

text \<open>
  The tracker object: the loaded pipeline document, the targets set by \<open>__init__\<close>, and
  the dashboard file it writes. \<open>round(x, n)\<close> and the \<open>.1%\<close> format of a number are
  library functions on floating-point numbers and are parameters of the model.
\<close>

record targets =
  target_response_rate :: rat
  target_interview_conversion :: rat
  time_per_application :: nat
  applications_per_week :: nat

record tracker =
  pipeline_data :: pipeline
  targets :: targets
  dashboard_file :: "string option"

record numfmt =
  round_nd :: "rat \<Rightarrow> nat \<Rightarrow> rat"
  percent1 :: "rat \<Rightarrow> string"

definition init_targets :: targets where
  "init_targets =
     \<lparr>target_response_rate = 4 / 10, target_interview_conversion = 7 / 10,
      time_per_application = 45, applications_per_week = 5\<rparr>"

text \<open>\<open>x / y\<close> on numbers that may be fractions.\<close>

definition ratdiv :: "rat \<Rightarrow> rat \<Rightarrow> error + rat" where
  "ratdiv a b = (if b = 0 then Inl ZeroDivisionError else Inr (a / b))"

text \<open>\<open>counts[key] += 1\<close> on a \<open>defaultdict(int)\<close>.\<close>

definition bump :: "'k \<Rightarrow> ('k \<times> nat) list \<Rightarrow> ('k \<times> nat) list" where
  "bump k counts = AList.update k (get (map_of counts k) 0 + 1) counts"

text \<open>
  \<open>_calculate_days_since\<close>: the empty string gives 0, and so does any exception of the
  parse or of the subtraction, which the bare \<open>except\<close> catches.
\<close>

definition calculate_days_since :: "env \<Rightarrow> string \<Rightarrow> int" where
  "calculate_days_since E date_string =
     (if date_string = [] then 0
      else (case bind (parse_date E date_string) (\<lambda>d. dt_sub (now E) d) of
              Inl _ \<Rightarrow> 0
            | Inr td \<Rightarrow> td_days td))"

text \<open>\<open>_get_last_activity_date\<close>: the greatest of the non-empty dates, as strings.\<close>

definition activity_dates :: "company \<Rightarrow> string list" where
  "activity_dates c =
     filter (\<lambda>s. s \<noteq> []) (get (map_option (\<lambda>s. [s]) (research_date c)) [])
     @ filter (\<lambda>s. s \<noteq> []) (map (\<lambda>e. get (send_date e) []) (get (emails_sent c) []))
     @ filter (\<lambda>s. s \<noteq> []) (map (\<lambda>i. get (date i) []) (get (interviews c) []))"

definition get_last_activity_date :: "company \<Rightarrow> string" where
  "get_last_activity_date c = foldr max (activity_dates c) []"

text \<open>\<open>_calculate_days_since_activity\<close>.\<close>

definition calculate_days_since_activity :: "env \<Rightarrow> company \<Rightarrow> int" where
  "calculate_days_since_activity E c = calculate_days_since E (get_last_activity_date c)"

text \<open>\<open>_is_upcoming_interview\<close>: within the next 14 days; false on any exception.\<close>

definition is_upcoming_interview :: "env \<Rightarrow> string \<Rightarrow> bool" where
  "is_upcoming_interview E date_string =
     (if date_string = [] then False
      else (case bind (parse_date E date_string) (\<lambda>d. dt_sub d (now E)) of
              Inl _ \<Rightarrow> False
            | Inr td \<Rightarrow> 0 \<le> td_days td \<and> td_days td \<le> 14))"

text \<open>\<open>_determine_next_action\<close>.\<close>

definition determine_next_action :: "company \<Rightarrow> string" where
  "determine_next_action c =
     (let st = get (status c) ''unknown''
      in if st = ''researching'' then ''Complete company research''
         else if st = ''researched'' then ''Generate application package''
         else if st = ''applied'' then ''Send cold email campaign''
         else if st = ''email_sent'' then ''Monitor for responses''
         else if st = ''responded'' then ''Schedule interview''
         else if st = ''interviewing'' then ''Follow up on interview outcome''
         else if st = ''offered'' then ''Negotiate and decide''
         else if st = ''hired'' then ''Complete - Success!''
         else if st = ''rejected'' then ''Archive and learn from feedback''
         else ''Determine status and next steps'')"

section \<open>The pipeline tracker: weekly progress\<close>

record weekly_stats =
  companies_researched :: nat
  applications_submitted :: nat
  week_emails_sent :: nat
  week_responses_received :: nat
  week_interviews_scheduled :: nat
  target_applications :: nat

record weekly_progress =
  week_start :: string
  week_end :: string
  weekly_stats :: weekly_stats
  progress_vs_target :: rat
  on_track :: bool

text \<open>\<open>lo <= d <= hi\<close>, a chained comparison: the second is made only when the first holds.\<close>

definition in_window :: "datetime \<Rightarrow> datetime \<Rightarrow> datetime \<Rightarrow> error + bool" where
  "in_window lo hi d =
     bind (dt_le lo d) (\<lambda>above. if above then dt_le d hi else Inr False)"

text \<open>Whether a date string counts for the week; the empty string is skipped, and the
  parse and the comparisons are not inside a \<open>try\<close>.\<close>

definition counts_this_week :: "env \<Rightarrow> datetime \<Rightarrow> datetime \<Rightarrow> string \<Rightarrow> error + bool" where
  "counts_this_week E lo hi date_str =
     (if date_str = [] then Inr False
      else bind (parse_date E date_str) (in_window lo hi))"

text \<open>What one company adds to the counters: research, emails, responses, interviews.\<close>

definition week_emails :: "env \<Rightarrow> datetime \<Rightarrow> datetime \<Rightarrow> email list \<Rightarrow> error + (nat \<times> nat)" where
  "week_emails E lo hi es =
     foldl (\<lambda>acc e. bind acc (\<lambda>(sent, responses).
              bind (counts_this_week E lo hi (get (send_date e) [])) (\<lambda>inside.
                Inr (if inside
                     then (sent + 1, if truthy (response_received e) then responses + 1 else responses)
                     else (sent, responses)))))
       (Inr (0, 0)) es"

definition week_interviews :: "env \<Rightarrow> datetime \<Rightarrow> datetime \<Rightarrow> interview list \<Rightarrow> error + nat" where
  "week_interviews E lo hi is =
     count_each (\<lambda>i. bind (counts_this_week E lo hi
                              (get (scheduled_date i) (get (date i) [])))
                       (\<lambda>inside. Inr (if inside then 1 else 0))) is"

definition week_company :: "env \<Rightarrow> datetime \<Rightarrow> datetime \<Rightarrow> weekly_stats \<Rightarrow> company \<Rightarrow> error + weekly_stats" where
  "week_company E lo hi ws c =
     bind (counts_this_week E lo hi (get (research_date c) [])) (\<lambda>researched.
     bind (week_emails E lo hi (get (emails_sent c) [])) (\<lambda>(sent, responses).
     bind (week_interviews E lo hi (get (interviews c) [])) (\<lambda>scheduled.
       Inr (ws\<lparr>companies_researched := companies_researched ws + (if researched then 1 else 0),
               week_emails_sent := week_emails_sent ws + sent,
               week_responses_received := week_responses_received ws + responses,
               week_interviews_scheduled := week_interviews_scheduled ws + scheduled\<rparr>))))"

text \<open>\<open>_generate_weekly_progress\<close>.\<close>

definition generate_weekly_progress :: "env \<Rightarrow> numfmt \<Rightarrow> tracker \<Rightarrow> error + weekly_progress" where
  "generate_weekly_progress E F t =
     (let today = now E;
          lo = add_days today (- weekday today);
          hi = add_days lo 6;
          ws0 = \<lparr>companies_researched = 0, applications_submitted = 0, week_emails_sent = 0,
                 week_responses_received = 0, week_interviews_scheduled = 0,
                 target_applications = applications_per_week (targets t)\<rparr>
      in bind (foldl (\<lambda>acc kc. bind acc (\<lambda>ws. week_company E lo hi ws (snd kc)))
                 (Inr ws0) (companies (pipeline_data t))) (\<lambda>ws.
         bind (truediv (applications_submitted ws) (target_applications ws)) (\<lambda>progress.
           Inr \<lparr>week_start = isoformat E lo, week_end = isoformat E hi, weekly_stats = ws,
                progress_vs_target = round_nd F progress 2,
                on_track = (progress \<ge> 8 / 10)\<rparr>)))"

section \<open>The pipeline tracker: summary and company status\<close>

text \<open>\<open>_calculate_completion_rate\<close>: five stages for each company.\<close>

definition completed_stages :: "company \<Rightarrow> nat" where
  "completed_stages c =
     (let st = get (status c) ''unknown''
      in (if st \<in> set [''researched'', ''applied'', ''interviewing'', ''offered'', ''hired'']
          then 1 else 0)
       + (if st \<in> set [''applied'', ''interviewing'', ''offered'', ''hired''] then 1 else 0)
       + (if st \<in> set [''interviewing'', ''offered'', ''hired''] then 1 else 0)
       + (if st \<in> set [''offered'', ''hired''] then 1 else 0)
       + (if st = ''hired'' then 1 else 0))"

definition calculate_completion_rate :: "numfmt \<Rightarrow> tracker \<Rightarrow> error + rat" where
  "calculate_completion_rate F t =
     (let cs = companies (pipeline_data t)
      in if cs = [] then Inr 0
         else (let completed = sum_list (map (\<lambda>kc. completed_stages (snd kc)) cs);
                   total_possible_stages = length cs * 5
               in if total_possible_stages > 0
                  then bind (truediv completed total_possible_stages)
                         (\<lambda>r. Inr (round_nd F r 3))
                  else Inr 0))"

record pipeline_summary =
  total_companies :: nat
  status_breakdown :: "(string \<times> nat) list"
  priority_counts :: "(string \<times> nat) list"
  completion_rate :: rat
  active_opportunities :: nat

definition priority_band :: "company \<Rightarrow> string" where
  "priority_band c =
     (let pr = get (priority_score c) 0
      in if pr \<ge> 35 then ''high'' else if pr \<ge> 28 then ''medium'' else ''low'')"

text \<open>\<open>_generate_pipeline_summary\<close>.\<close>

definition generate_pipeline_summary :: "numfmt \<Rightarrow> tracker \<Rightarrow> error + pipeline_summary" where
  "generate_pipeline_summary F t =
     (let cs = map snd (companies (pipeline_data t));
          status_counts = foldl (\<lambda>acc c. bump (get (status c) ''unknown'') acc) [] cs;
          bands = foldl (\<lambda>acc c. bump (priority_band c) acc) [] cs
      in bind (calculate_completion_rate F t) (\<lambda>rate.
           Inr \<lparr>total_companies = length cs,
                status_breakdown = status_counts,
                priority_counts = bands,
                completion_rate = rate,
                active_opportunities =
                  get (map_of status_counts ''researched'') 0
                  + get (map_of status_counts ''applied'') 0
                  + get (map_of status_counts ''interviewing'') 0\<rparr>))"

record status_info =
  info_company_name :: string
  info_status :: string
  info_priority_score :: int
  info_research_date :: string
  last_activity :: string
  next_action :: string
  days_since_activity :: int
  info_emails_sent :: nat
  info_interviews_scheduled :: nat
  info_response_received :: bool

text \<open>\<open>_generate_company_status\<close>: sorted by priority score, then by recent activity.\<close>

definition company_status_info :: "env \<Rightarrow> string \<times> company \<Rightarrow> status_info" where
  "company_status_info E kc =
     (let company_key = fst kc; c = snd kc
      in \<lparr>info_company_name = get (name c) company_key,
          info_status = get (status c) ''unknown'',
          info_priority_score = get (priority_score c) 0,
          info_research_date = get (research_date c) [],
          last_activity = get_last_activity_date c,
          next_action = determine_next_action c,
          days_since_activity = calculate_days_since_activity E c,
          info_emails_sent = length (get (emails_sent c) []),
          info_interviews_scheduled = length (get (interviews c) []),
          info_response_received = has_received_response c\<rparr>)"

definition generate_company_status :: "env \<Rightarrow> tracker \<Rightarrow> status_info list" where
  "generate_company_status E t =
     sort_reverse (\<lambda>x. (info_priority_score x, - days_since_activity x))
       (map (company_status_info E) (companies (pipeline_data t)))"

section \<open>The pipeline tracker: the reports on metrics, emails and interviews\<close>

record success_metrics =
  total_sent :: nat
  metric_responses_received :: nat
  metric_response_rate :: rat
  email_performance_vs_target :: rat
  metric_total_applications :: nat
  metric_interviews_scheduled :: nat
  metric_interview_conversion_rate :: rat
  application_performance_vs_target :: rat
  metric_offers_received :: nat
  metric_offer_conversion_rate :: rat
  pipeline_value :: nat

text \<open>The quotient of a rate and its target, rounded to two places, guarded by
  \<open>if target > 0 else 0\<close>.\<close>

definition versus_target :: "numfmt \<Rightarrow> rat \<Rightarrow> rat \<Rightarrow> error + rat" where
  "versus_target F rate target =
     (if target > 0 then bind (ratdiv rate target) (\<lambda>q. Inr (round_nd F q 2)) else Inr 0)"

text \<open>\<open>_generate_success_metrics\<close>; the timing lists are never filled, so both averages
  are 0 and are left out.\<close>

definition generate_success_metrics :: "numfmt \<Rightarrow> tracker \<Rightarrow> error + success_metrics" where
  "generate_success_metrics F t =
     (let p = pipeline_data t
      in bind (email_response_rate p) (\<lambda>response_rate.
         bind (interview_conversion_rate p) (\<lambda>conversion_rate.
         bind (offer_conversion_rate p) (\<lambda>offer_rate.
         bind (versus_target F response_rate (target_response_rate (targets t))) (\<lambda>email_vs.
         bind (versus_target F conversion_rate (target_interview_conversion (targets t)))
           (\<lambda>application_vs.
           Inr \<lparr>total_sent = total_emails p,
                metric_responses_received = responses_received p,
                metric_response_rate = round_nd F response_rate 3,
                email_performance_vs_target = email_vs,
                metric_total_applications = total_applications p,
                metric_interviews_scheduled = interviews_scheduled_count p,
                metric_interview_conversion_rate = round_nd F conversion_rate 3,
                application_performance_vs_target = application_vs,
                metric_offers_received = offers_received_count p,
                metric_offer_conversion_rate = round_nd F offer_rate 3,
                pipeline_value = offers_received_count p * 165000\<rparr>))))))"

record campaign_info =
  campaign_company :: string
  campaign_send_date :: string
  template_used :: string
  campaign_response_received :: bool
  days_since_sent :: int
  campaign_follow_up_sent :: bool

record template_stat =
  stat_emails_sent :: nat
  stat_responses :: nat
  stat_response_rate :: rat

record email_performance =
  campaign_details :: "campaign_info list"
  template_performance :: "(string \<times> template_stat) list"
  daily_activity :: "(string \<times> nat) list"
  best_performing_template :: string
  total_campaigns :: nat
  pending_responses :: nat

definition campaigns_of :: "env \<Rightarrow> company \<Rightarrow> campaign_info list" where
  "campaigns_of E c =
     map (\<lambda>e. \<lparr>campaign_company = get (name c) ''Unknown'',
               campaign_send_date = get (send_date e) [],
               template_used = get (template e) ''unknown'',
               campaign_response_received = get (response_received e) False,
               days_since_sent = calculate_days_since E (get (send_date e) []),
               campaign_follow_up_sent = get (follow_up_sent e) False\<rparr>)
       (get (emails_sent c) [])"

text \<open>The counters of sent emails and of responses for each template, in the order in
  which the templates are first met.\<close>

definition template_counts :: "campaign_info list \<Rightarrow> (string \<times> nat \<times> nat) list" where
  "template_counts cs =
     foldl (\<lambda>acc c.
              (let old = get (map_of acc (template_used c)) (0, 0)
               in AList.update (template_used c)
                    (fst old + 1, if campaign_response_received c then snd old + 1 else snd old)
                    acc))
       [] cs"

text \<open>\<open>max(items, key=rate)\<close>: the first item whose rate is the greatest.\<close>

fun first_max :: "(string \<times> template_stat) list \<Rightarrow> (string \<times> template_stat) option" where
  "first_max [] = None"
| "first_max (x # xs) =
     (case first_max xs of
        None \<Rightarrow> Some x
      | Some y \<Rightarrow> if stat_response_rate (snd y) > stat_response_rate (snd x)
                  then Some y else Some x)"

text \<open>\<open>_generate_email_performance\<close>.\<close>

definition generate_email_performance :: "env \<Rightarrow> numfmt \<Rightarrow> tracker \<Rightarrow> error + email_performance" where
  "generate_email_performance E F t =
     (let email_campaigns = concat (map (\<lambda>kc. campaigns_of E (snd kc))
                                     (companies (pipeline_data t)));
          days = filter (\<lambda>d. d \<noteq> []) (map (\<lambda>c. take 10 (campaign_send_date c)) email_campaigns)
      in bind (for_each (\<lambda>(tpl, sent, responses).
                   bind (if sent > 0 then truediv responses sent else Inr 0) (\<lambda>rate.
                     Inr [(tpl, \<lparr>stat_emails_sent = sent, stat_responses = responses,
                                 stat_response_rate = round_nd F rate 3\<rparr>)]))
                 (template_counts email_campaigns)) (\<lambda>template_stats.
           Inr \<lparr>campaign_details = email_campaigns,
                template_performance = template_stats,
                daily_activity = foldl (\<lambda>acc d. bump d acc) [] days,
                best_performing_template =
                  (case first_max template_stats of None \<Rightarrow> ''None'' | Some x \<Rightarrow> fst x),
                total_campaigns = length email_campaigns,
                pending_responses =
                  length (filter (\<lambda>c. \<not> campaign_response_received c \<and> days_since_sent c \<le> 14)
                            email_campaigns)\<rparr>))"

record interview_info =
  detail_company :: string
  detail_date :: string
  detail_type :: string
  detail_stage :: string
  detail_interviewer :: string
  detail_outcome :: string
  detail_feedback :: string
  detail_next_steps :: string

record interview_tracking =
  scheduled_interviews :: nat
  interview_details :: "interview_info list"
  stage_breakdown :: "(string \<times> nat) list"
  outcome_breakdown :: "(string \<times> nat) list"
  upcoming_interviews :: "interview_info list"
  pending_feedback :: nat
  success_rate :: rat

definition interview_infos :: "company \<Rightarrow> interview_info list" where
  "interview_infos c =
     map (\<lambda>i. \<lparr>detail_company = get (name c) ''Unknown'',
               detail_date = get (date i) [],
               detail_type = get (itype i) ''unknown'',
               detail_stage = get (stage i) ''unknown'',
               detail_interviewer = get (interviewer i) [],
               detail_outcome = get (outcome i) ''pending'',
               detail_feedback = get (feedback i) [],
               detail_next_steps = get (next_steps i) []\<rparr>)
       (get (interviews c) [])"

text \<open>\<open>_generate_interview_tracking\<close>.\<close>

definition generate_interview_tracking :: "env \<Rightarrow> numfmt \<Rightarrow> tracker \<Rightarrow> error + interview_tracking" where
  "generate_interview_tracking E F t =
     (let infos = concat (map (\<lambda>kc. interview_infos (snd kc)) (companies (pipeline_data t)));
          outcomes = foldl (\<lambda>acc i. bump (detail_outcome i) acc) [] infos
      in bind (if infos \<noteq> []
               then bind (truediv (get (map_of outcomes ''advanced'') 0) (length infos))
                      (\<lambda>r. Inr (round_nd F r 3))
               else Inr 0) (\<lambda>rate.
           Inr \<lparr>scheduled_interviews = length infos,
                interview_details = infos,
                stage_breakdown = foldl (\<lambda>acc i. bump (detail_stage i) acc) [] infos,
                outcome_breakdown = outcomes,
                upcoming_interviews = filter (\<lambda>i. is_upcoming_interview E (detail_date i)) infos,
                pending_feedback = length (filter (\<lambda>i. detail_outcome i = ''pending'') infos),
                success_rate = rate\<rparr>))"

section \<open>The pipeline tracker: recommendations\<close>

text \<open>A recommendation; the constant list of advice under \<open>actions\<close> is left out.\<close>

record recommendation =
  rec_category :: string
  rec_priority :: string
  rec_title :: string
  rec_description :: string

text \<open>
  \<open>_generate_recommendations\<close>: it computes the success metrics, the email performance,
  the weekly progress and the pipeline summary again, in this order, and an exception of
  any of them leaves the function.
\<close>

definition generate_recommendations :: "env \<Rightarrow> numfmt \<Rightarrow> tracker \<Rightarrow> error + recommendation list" where
  "generate_recommendations E F t =
     bind (generate_success_metrics F t) (\<lambda>metrics.
     bind (generate_email_performance E F t) (\<lambda>performance.
     bind (generate_weekly_progress E F t) (\<lambda>progress.
     bind (generate_pipeline_summary F t) (\<lambda>summary.
       (let researched_count = get (map_of (status_breakdown summary) ''researched'') 0
        in Inr
          ((if metric_response_rate metrics < target_response_rate (targets t) * (8 / 10)
            then [\<lparr>rec_category = ''email_optimization'', rec_priority = ''high'',
                   rec_title = ''Improve Email Response Rate'',
                   rec_description =
                     ''Current response rate ('' @ percent1 F (metric_response_rate metrics)
                     @ '') is below target (''
                     @ percent1 F (target_response_rate (targets t)) @ '')''\<rparr>]
            else [])
           @ (if \<not> on_track progress
              then [\<lparr>rec_category = ''volume_optimization'', rec_priority = ''medium'',
                     rec_title = ''Increase Application Volume'',
                     rec_description =
                       ''Behind target applications per week (''
                       @ str_nat (applications_submitted (weekly_stats progress)) @ '' vs ''
                       @ str_nat (target_applications (weekly_stats progress)) @ '')''\<rparr>]
              else [])
           @ (if researched_count > 3
              then [\<lparr>rec_category = ''pipeline_efficiency'', rec_priority = ''medium'',
                     rec_title = ''Convert Research to Applications'',
                     rec_description =
                       str_nat researched_count
                       @ '' companies researched but not yet applied to''\<rparr>]
              else [])
           @ (if template_performance performance \<noteq> []
              then [\<lparr>rec_category = ''template_optimization'', rec_priority = ''low'',
                     rec_title = ''Optimize Email Templates'',
                     rec_description =
                       [CHR 0x27] @ best_performing_template performance @ [CHR 0x27]
                       @ '' template performing best''\<rparr>]
              else [])))))))"

section \<open>The pipeline tracker: the dashboard\<close>

record dashboard =
  generated_at :: string
  dash_pipeline_summary :: pipeline_summary
  dash_company_status :: "status_info list"
  dash_success_metrics :: success_metrics
  dash_email_performance :: email_performance
  dash_interview_tracking :: interview_tracking
  dash_next_actions :: "action_item list"
  dash_weekly_progress :: weekly_progress
  dash_recommendations :: "recommendation list"

text \<open>
  The dictionary that \<open>generate_dashboard\<close> builds: its entries are computed in the order
  in which they are written, and the first exception ends the computation. Every
  generator reads \<open>self.pipeline_data\<close> and \<open>self.targets\<close> and assigns to neither, so each
  is a function of the tracker.
\<close>

definition build_dashboard :: "env \<Rightarrow> numfmt \<Rightarrow> tracker \<Rightarrow> error + dashboard" where
  "build_dashboard E F t =
     bind (generate_pipeline_summary F t) (\<lambda>summary.
     bind (generate_success_metrics F t) (\<lambda>metrics.
     bind (generate_email_performance E F t) (\<lambda>performance.
     bind (generate_interview_tracking E F t) (\<lambda>tracking.
     bind (generate_next_actions E (pipeline_data t)) (\<lambda>actions.
     bind (generate_weekly_progress E F t) (\<lambda>progress.
     bind (generate_recommendations E F t) (\<lambda>recommendations.
       Inr \<lparr>generated_at = isoformat E (now E),
            dash_pipeline_summary = summary,
            dash_company_status = generate_company_status E t,
            dash_success_metrics = metrics,
            dash_email_performance = performance,
            dash_interview_tracking = tracking,
            dash_next_actions = actions,
            dash_weekly_progress = progress,
            dash_recommendations = recommendations\<rparr>)))))))"

text \<open>
  \<open>_save_dashboard\<close> writes the markdown text of the dashboard to
  \<open>Pipeline_Dashboard.md\<close>. The formatters read the dashboard they are given and nothing
  else, so the text is a function \<open>render\<close> of the dashboard, a parameter here.
\<close>

definition save_dashboard :: "(dashboard \<Rightarrow> string) \<Rightarrow> dashboard \<Rightarrow> tracker \<Rightarrow> tracker" where
  "save_dashboard render d t = t\<lparr>dashboard_file := Some (render d)\<rparr>"

text \<open>
  \<open>generate_dashboard\<close>: the value returned or the exception raised, together with the
  tracker after the call. The file is written only when the dictionary has been built.
\<close>

definition generate_dashboard ::
  "env \<Rightarrow> numfmt \<Rightarrow> (dashboard \<Rightarrow> string) \<Rightarrow> tracker \<Rightarrow> (error + dashboard) \<times> tracker" where
  "generate_dashboard E F render t =
     (case build_dashboard E F t of
        Inl e \<Rightarrow> (Inl e, t)
      | Inr d \<Rightarrow> (Inr d, save_dashboard render d t))"

section \<open>The application generator: case-story relevance\<close>

text \<open>
  A case story is a dictionary of JSON values; the job analysis is a dictionary whose
  \<open>keywords\<close> entry (the field \<open>job_keywords\<close>), when present, maps a category to a list
  of keywords.
\<close>

type_synonym story = "(string \<times> json) list"

record job_analysis =
  job_keywords :: "(string \<times> string list) list option"

text \<open>\<open>_get_role_specific_keywords\<close>.\<close>

definition get_role_specific_keywords :: "string \<Rightarrow> string list" where
  "get_role_specific_keywords role =
     (let role_lower = lower role
      in if sublist ''growth'' role_lower
         then [''acquisition'', ''conversion'', ''retention'', ''engagement'', ''funnel'',
               ''a/b test'']
         else if sublist ''product'' role_lower
         then [''roadmap'', ''feature'', ''user story'', ''sprint'', ''stakeholder'', ''metrics'']
         else if sublist ''strategy'' role_lower
         then [''strategic'', ''planning'', ''analysis'', ''framework'', ''competitive'']
         else [''management'', ''leadership'', ''execution'', ''results'', ''improvement''])"

text \<open>\<open>json.dumps(story).lower()\<close>.\<close>

definition story_text :: "story \<Rightarrow> string" where
  "story_text st = lower (json_dumps (JDict st))"

text \<open>
  \<open>any(char.isdigit() for char in story.get("results", ""))\<close>. A string is iterated by
  characters, a list by its elements and a dictionary by its keys, and \<open>any\<close> stops at the
  first true element; a number, a boolean or \<open>None\<close> cannot be iterated, and an element
  that is not a string has no \<open>isdigit\<close>.
\<close>

fun any_isdigit :: "json list \<Rightarrow> error + bool" where
  "any_isdigit [] = Inr False"
| "any_isdigit (JStr e # xs) = (if isdigit e then Inr True else any_isdigit xs)"
| "any_isdigit (_ # xs) = Inl AttributeError"

definition results_have_digit :: "story \<Rightarrow> error + bool" where
  "results_have_digit st =
     (case map_of st ''results'' of
        None \<Rightarrow> Inr False
      | Some (JStr s) \<Rightarrow> Inr (list_ex isdigit_char s)
      | Some (JList xs) \<Rightarrow> any_isdigit xs
      | Some (JDict kvs) \<Rightarrow> Inr (list_ex isdigit (map fst kvs))
      | Some _ \<Rightarrow> Inl TypeError)"

text \<open>The number of keywords of a list that occur in a text.\<close>

definition matches :: "string list \<Rightarrow> string \<Rightarrow> nat" where
  "matches kws text = length (filter (\<lambda>keyword. sublist keyword text) kws)"

text \<open>
  \<open>_score_case_story_relevance\<close>: 1.0 for each keyword of the job analysis and 2.0 for
  each role-specific keyword that occurs in the story text, and 1.5 when the results
  hold a digit. The sums are multiples of 0.5 and are kept as rationals.
\<close>

definition score_case_story_relevance :: "story \<Rightarrow> string \<Rightarrow> job_analysis \<Rightarrow> error + rat" where
  "score_case_story_relevance st role ja =
     (let text = story_text st;
          keyword_score = of_nat (matches (concat (map snd (get (job_keywords ja) []))) text);
          role_score = 2 * of_nat (matches (get_role_specific_keywords role) text)
      in bind (results_have_digit st)
           (\<lambda>digit. Inr (keyword_score + role_score + (if digit then 3 / 2 else 0))))"

text \<open>The story with all digits removed from its results text.\<close>

definition remove_digits :: "story \<Rightarrow> story" where
  "remove_digits st =
     (case map_of st ''results'' of
        Some (JStr s) \<Rightarrow> AList.update ''results'' (JStr (filter (\<lambda>c. \<not> isdigit_char c) s)) st
      | _ \<Rightarrow> st)"

section \<open>The rate as the specification words it\<close>

text \<open>
  The specification's definition of the interview conversion rate: the companies with at
  least one interview, divided by the companies whose status is \<open>applied\<close> or a later
  state of the progression (0 when there is none).
\<close>

definition applied_or_later :: "company \<Rightarrow> bool" where
  "applied_or_later c = (case rank_of c of None \<Rightarrow> False | Some r \<Rightarrow> 2 \<le> r)"

definition spec_interview_conversion_rate :: "pipeline \<Rightarrow> rat" where
  "spec_interview_conversion_rate p =
     (let applied = length (filter (\<lambda>(k, c). applied_or_later c) (companies p))
      in if applied = 0 then 0
         else of_nat (interviews_scheduled_count p) / of_nat applied)"

text \<open>
  The order of the priorities as the specification words it: high before medium before
  low.
\<close>

definition spec_priority_before :: "string \<Rightarrow> string \<Rightarrow> bool" where
  "spec_priority_before a b =
     ((a = ''high'' \<and> (b = ''medium'' \<or> b = ''low'')) \<or> (a = ''medium'' \<and> b = ''low''))"

section \<open>Sample documents\<close>

text \<open>The default pipeline structure of \<open>load_pipeline\<close>, returned when no file exists.\<close>

definition default_pipeline :: pipeline where
  "default_pipeline =
     \<lparr>companies = [],
      stats = \<lparr>total_researched = 0, total_applied = 0, response_rate = 0,
               interviews_scheduled = 0, offers_received = 0\<rparr>,
      next_actions = []\<rparr>"

definition acme_researched :: company where
  "acme_researched =
     \<lparr>name = Some ''Acme'', research_date = Some ''2024-01-01T09:00:00'', role_title = None,
      priority_score = Some 32, priority_breakdown = None, qualification_passed = Some True,
      research_completed = Some True, application_generated = Some False,
      emails_sent = Some [], interviews = Some [], status = Some ''researched'',
      offer_received = None, research_data = [], network_opportunities = None\<rparr>"

definition acme_interviewing :: company where
  "acme_interviewing =
     acme_researched\<lparr>application_generated := Some True, status := Some ''interviewing''\<rparr>"

definition researched_pipeline :: pipeline where
  "researched_pipeline = default_pipeline\<lparr>companies := [(''acme'', acme_researched)]\<rparr>"

definition interviewing_pipeline :: pipeline where
  "interviewing_pipeline = default_pipeline\<lparr>companies := [(''acme'', acme_interviewing)]\<rparr>"

text \<open>
  A clock and the values of the two library functions on the timestamps of the sample
  documents: 15 January 2024, noon, is the current time.
\<close>

definition at_second :: "int \<Rightarrow> datetime" where
  "at_second n = \<lparr>wall = n * 1000000, utcoffset = None\<rparr>"

definition sample_fromisoformat :: "string \<Rightarrow> datetime option" where
  "sample_fromisoformat s =
     (if s = ''2024-01-01T09:00:00'' then Some (at_second 1704099600)
      else if s = ''2024-01-02T09:00:00'' then Some (at_second 1704186000)
      else if s = ''2024-01-05T09:00:00'' then Some (at_second 1704445200)
      else if s = ''2024-01-20T10:00:00'' then Some (at_second 1705744800)
      else None)"

definition sample_isoformat :: "datetime \<Rightarrow> string" where
  "sample_isoformat d =
     (if d = at_second 1704272400 then ''2024-01-03T09:00:00''
      else if d = at_second 1705320000 then ''2024-01-15T12:00:00''
      else if d = at_second 1705276800 then ''2024-01-15T00:00:00''
      else if d = at_second 1705795200 then ''2024-01-21T00:00:00''
      else if d = at_second 1705838400 then ''2024-01-21T12:00:00''
      else ''unlisted'')"

definition sample_env :: env where
  "sample_env =
     \<lparr>fromisoformat = sample_fromisoformat, isoformat = sample_isoformat,
      now = at_second 1705320000\<rparr>"

definition globex :: company where
  "globex =
     \<lparr>name = Some ''Globex'', research_date = Some ''2024-01-01T09:00:00'', role_title = None,
      priority_score = Some 35, priority_breakdown = None, qualification_passed = Some True,
      research_completed = Some True, application_generated = Some True,
      emails_sent = Some [\<lparr>send_date = Some ''2024-01-02T09:00:00'', template = Some ''intro'',
                             response_received = Some False, follow_up_sent = Some False\<rparr>],
      interviews = Some [\<lparr>date = Some ''2024-01-20T10:00:00'', scheduled_date = None,
                           itype = None, stage = Some ''Onsite'', interviewer = None,
                           outcome = Some ''pending'', feedback = None, next_steps = None\<rparr>],
      status = Some ''interviewing'',
      offer_received = None, research_data = [], network_opportunities = None\<rparr>"


definition globex_pipeline :: pipeline where
  "globex_pipeline = default_pipeline\<lparr>companies := [(''globex'', globex)]\<rparr>"

text \<open>The default quality gate of \<open>load_config\<close>, and a research call with scores summing to 25.\<close>

definition default_config :: config where
  "default_config = \<lparr>min_priority_score = 28\<rparr>"

definition sample_io :: research_io where
  "sample_io =
     \<lparr>now_iso = ''2024-01-15T12:00:00'',
      asked_scores = [(''role_appeal'', 8), (''company_fit'', 8),
                      (''growth_potential'', 8), (''likelihood'', 8)],
      ai_research = [(''company_dossier'', ''Dossier text'')]\<rparr>"

definition low_scores :: "(string \<times> int) list" where
  "low_scores = [(''role_appeal'', 6), (''company_fit'', 6),
                 (''growth_potential'', 6), (''likelihood'', 7)]"

definition initech_disqualified :: company where
  "initech_disqualified =
     \<lparr>name = Some ''Initech'', research_date = Some ''2024-01-15T12:00:00'', role_title = None,
      priority_score = Some 25, priority_breakdown = Some low_scores,
      qualification_passed = Some False, research_completed = Some False,
      application_generated = Some False, emails_sent = Some [], interviews = Some [],
      status = Some ''disqualified'', offer_received = None, research_data = [],
      network_opportunities = None\<rparr>"

text \<open>Case stories: two whose digits interact with a keyword, and one where they do not.\<close>

definition b2b_story :: story where
  "b2b_story = [(''title'', JStr ''Channel growth''), (''results'', JStr ''Grew B2B revenue'')]"

definition b2b_analysis :: job_analysis where
  "b2b_analysis = \<lparr>job_keywords = Some [(''experience_keywords'', [''b2b''])]\<rparr>"

definition retention_story :: story where
  "retention_story = [(''title'', JStr ''Loyalty''), (''results'', JStr ''Reten5tion up'')]"

definition conversion_story :: story where
  "conversion_story =
     [(''title'', JStr ''Checkout redesign''),
      (''results'', JStr ''Raised conversion rate to 8.4%''),
      (''skills'', JList [JStr ''Experimentation''])]"

definition conversion_analysis :: job_analysis where
  "conversion_analysis = \<lparr>job_keywords = Some [(''technical_skills'', [''conversion''])]\<rparr>"

text \<open>
  Trackers over the sample pipelines, with stand-ins for the library's rounding and
  percent format (to the nearest unit of the last place) and for the markdown text.
\<close>

definition sample_round :: "rat \<Rightarrow> nat \<Rightarrow> rat" where
  "sample_round r n = of_int (round (r * 10 ^ n)) / 10 ^ n"

definition sample_percent1 :: "rat \<Rightarrow> string" where
  "sample_percent1 r =
     (let n = round (r * 1000) in str_int (n div 10) @ ''.'' @ str_int (n mod 10) @ ''%'')"

definition sample_numfmt :: numfmt where
  "sample_numfmt = \<lparr>round_nd = sample_round, percent1 = sample_percent1\<rparr>"

definition sample_render :: "dashboard \<Rightarrow> string" where
  "sample_render d = ''# Job Search Pipeline Dashboard, generated '' @ generated_at d"


text \<open>A company whose only email carries a send date that is not a timestamp.\<close>

definition hooli_email :: email where
  "hooli_email =
     \<lparr>send_date = Some ''not-a-date'', template = Some ''intro'',
      response_received = Some False, follow_up_sent = Some False\<rparr>"

definition hooli :: company where
  "hooli =
     \<lparr>name = Some ''Hooli'', research_date = Some ''2024-01-01T09:00:00'', role_title = None,
      priority_score = Some 30, priority_breakdown = None, qualification_passed = Some True,
      research_completed = Some True, application_generated = Some True,
      emails_sent = Some [hooli_email],
      interviews = Some [], status = Some ''applied'',
      offer_received = None, research_data = [], network_opportunities = None\<rparr>"

definition hooli_tracker :: tracker where
  "hooli_tracker =
     \<lparr>pipeline_data = default_pipeline\<lparr>companies := [(''hooli'', hooli)]\<rparr>,
      targets = init_targets, dashboard_file = None\<rparr>"

text \<open>
  The record that \<open>research_company\<close> stores for the name \<open>Acme Corp\<close>: its key has the
  space replaced by an underscore.
\<close>

definition acme_corp_pipeline :: pipeline where
  "acme_corp_pipeline =
     default_pipeline\<lparr>companies := [(''acme_corp'', acme_researched\<lparr>name := Some ''Acme Corp''\<rparr>)]\<rparr>"

text \<open>
  A company whose unanswered email of 5 January is due for a follow-up, listed before a
  researched company whose application is due on 3 January.
\<close>

definition umbrella :: company where
  "umbrella =
     \<lparr>name = Some ''Umbrella'', research_date = Some ''2024-01-01T09:00:00'', role_title = None,
      priority_score = Some 30, priority_breakdown = None, qualification_passed = Some True,
      research_completed = Some True, application_generated = Some True,
      emails_sent = Some [\<lparr>send_date = Some ''2024-01-05T09:00:00'', template = Some ''intro'',
                             response_received = Some False, follow_up_sent = Some False\<rparr>],
      interviews = Some [], status = Some ''applied'',
      offer_received = None, research_data = [], network_opportunities = None\<rparr>"

definition mixed_pipeline :: pipeline where
  "mixed_pipeline =
     default_pipeline\<lparr>companies := [(''umbrella'', umbrella), (''acme'', acme_researched)]\<rparr>"

section \<open>Properties of the orchestrator's mutation path\<close>

lemma lower_Acme: "lower ''Acme'' = ''acme''"
  by code_simp

lemma lower_Acme_Corp: "lower ''Acme Corp'' = ''acme corp''"
  by code_simp

lemma key_Acme_Corp: "company_key_of ''Acme Corp'' = ''acme_corp''"
  by code_simp

lemma map_of_alist_update_same: "map_of (AList.update k v al) k = Some v"
  by (simp add: update_conv')

lemma alist_update_twice: "AList.update k v (AList.update k v al) = AList.update k v al"
  by (induction al) auto

lemma status_rank_values:
  "status_rank ''researching'' = Some 0" "status_rank ''researched'' = Some 1"
  "status_rank ''applied'' = Some 2" "status_rank ''outreach_sent'' = Some 3"
  "status_rank ''responded'' = Some 4" "status_rank ''interviewing'' = Some 5"
  "status_rank ''offered'' = Some 6" "status_rank ''hired'' = Some 7"
  by (simp_all add: status_rank_def)

text \<open>The record written by one call is a fixed point of the same write.\<close>

lemma record_write_idem:
  assumes "c2 = (let c1 = set_field fv c in
      if field_name fv = ''application_generated'' \<and> value_truthy fv
      then c1\<lparr>status := Some ''applied''\<rparr>
      else if field_name fv = ''emails_sent'' \<and> value_truthy fv
      then c1\<lparr>status := Some ''outreach_sent''\<rparr> else c1)"
  shows "(let c1 = set_field fv c2 in
      if field_name fv = ''application_generated'' \<and> value_truthy fv
      then c1\<lparr>status := Some ''applied''\<rparr>
      else if field_name fv = ''emails_sent'' \<and> value_truthy fv
      then c1\<lparr>status := Some ''outreach_sent''\<rparr> else c1) = c2"
  using assms by (cases fv) (auto simp: Let_def)

text \<open>
  C1, as stated, fails: \<open>_update_pipeline_status\<close> overwrites \<open>status\<close> without looking at
  the current one. A company that is \<open>interviewing\<close> (rank 5) is set back to \<open>applied\<close>
  (rank 2) by \<open>application_generated = True\<close>.
\<close>

theorem status_regress_counterexample:
  "map_option rank_of (map_of (companies interviewing_pipeline) (lower ''Acme'')) = Some (Some 5) \<and>
   map_option rank_of
     (map_of (companies (update_pipeline_status interviewing_pipeline ''Acme''
                           (Application_generated True)))
        (lower ''Acme'')) = Some (Some 2)"
  by (simp add: lower_Acme interviewing_pipeline_def acme_interviewing_def acme_researched_def
      default_pipeline_def update_pipeline_status_def rank_of_def status_rank_values)

text \<open>
  C1, amended: \<open>_update_pipeline_status\<close> looks the company up under its lower-cased name.
  When the pipeline holds no record under that key, the call changes nothing: this is so
  for a name with a space, whose record \<open>research_company\<close> stores under the key with an
  underscore. When it holds one, the call leaves a record whose status is \<open>applied\<close> after
  a true \<open>application_generated\<close>, \<open>outreach_sent\<close> after a non-empty \<open>emails_sent\<close>, and the
  record's own status after any other write. Hence the status does not move backward in
  the ordering when the field written is not \<open>status\<close> itself and the current state is not
  later than the state the call sets (\<open>applied\<close>, rank 2, or \<open>outreach_sent\<close>, rank 3).
\<close>

theorem status_after_update:
  "(map_of (companies p) (lower company_name) = None \<longrightarrow>
      update_pipeline_status p company_name fv = p) \<and>
   (\<forall>c. map_of (companies p) (lower company_name) = Some c \<longrightarrow>
      (\<exists>c'. map_of (companies (update_pipeline_status p company_name fv)) (lower company_name)
                 = Some c'
         \<and> status c' =
             (if field_name fv = ''application_generated'' \<and> value_truthy fv then Some ''applied''
              else if field_name fv = ''emails_sent'' \<and> value_truthy fv then Some ''outreach_sent''
              else status (set_field fv c))
         \<and> (\<forall>r. rank_of c = Some r \<and> field_name fv \<noteq> ''status''
                  \<and> (field_name fv = ''application_generated'' \<and> value_truthy fv \<longrightarrow> r \<le> 2)
                  \<and> (field_name fv = ''emails_sent'' \<and> value_truthy fv \<longrightarrow> r \<le> 3)
                \<longrightarrow> (\<exists>r'. rank_of c' = Some r' \<and> r \<le> r'))))"
proof (intro conjI impI allI)
  assume "map_of (companies p) (lower company_name) = None"
  then show "update_pipeline_status p company_name fv = p"
    by (simp add: update_pipeline_status_def)
next
  fix c assume "map_of (companies p) (lower company_name) = Some c"
  then show "\<exists>c'. map_of (companies (update_pipeline_status p company_name fv)) (lower company_name)
                 = Some c'
         \<and> status c' =
             (if field_name fv = ''application_generated'' \<and> value_truthy fv then Some ''applied''
              else if field_name fv = ''emails_sent'' \<and> value_truthy fv then Some ''outreach_sent''
              else status (set_field fv c))
         \<and> (\<forall>r. rank_of c = Some r \<and> field_name fv \<noteq> ''status''
                  \<and> (field_name fv = ''application_generated'' \<and> value_truthy fv \<longrightarrow> r \<le> 2)
                  \<and> (field_name fv = ''emails_sent'' \<and> value_truthy fv \<longrightarrow> r \<le> 3)
                \<longrightarrow> (\<exists>r'. rank_of c' = Some r' \<and> r \<le> r'))"
    by (cases fv)
       (auto simp: update_pipeline_status_def Let_def map_of_alist_update_same rank_of_def
          status_rank_values split: option.splits)
qed

theorem status_after_update_witness:
  "map_of (companies researched_pipeline) (lower ''Acme'') = Some acme_researched \<and>
   rank_of acme_researched = Some 1 \<and>
   (\<exists>c'. map_of (companies (update_pipeline_status researched_pipeline ''Acme''
                              (Application_generated True))) (lower ''Acme'') = Some c'
      \<and> status c' = Some ''applied'' \<and> (\<exists>r'. rank_of c' = Some r' \<and> 1 \<le> r')) \<and>
   company_key_of ''Acme Corp'' = ''acme_corp'' \<and>
   map_of (companies acme_corp_pipeline) (lower ''Acme Corp'') = None \<and>
   update_pipeline_status acme_corp_pipeline ''Acme Corp'' (Application_generated True)
     = acme_corp_pipeline"
proof -
  have present: "map_of (companies researched_pipeline) (lower ''Acme'') = Some acme_researched"
    by (simp add: researched_pipeline_def lower_Acme)
  have rank: "rank_of acme_researched = Some 1"
    by (simp add: rank_of_def acme_researched_def status_rank_values)
  have absent: "map_of (companies acme_corp_pipeline) (lower ''Acme Corp'') = None"
    by (simp add: acme_corp_pipeline_def lower_Acme_Corp)
  have moved: "\<exists>c'. map_of (companies (update_pipeline_status researched_pipeline ''Acme''
                              (Application_generated True))) (lower ''Acme'') = Some c'
      \<and> status c' = Some ''applied'' \<and> (\<exists>r'. rank_of c' = Some r' \<and> 1 \<le> r')"
    using status_after_update [of researched_pipeline "''Acme''" "Application_generated True"]
      present rank
    by fastforce
  have noop: "update_pipeline_status acme_corp_pipeline ''Acme Corp'' (Application_generated True)
     = acme_corp_pipeline"
    using status_after_update [of acme_corp_pipeline "''Acme Corp''" "Application_generated True"]
      absent
    by blast
  show ?thesis
    using present rank moved key_Acme_Corp absent noop by blast
qed

text \<open>
  C3, as stated, fails: the write is guarded by \<open>if company_key in self.pipeline['companies']\<close>,
  so a company that is absent stays absent.
\<close>

theorem upsert_absent_counterexample:
  "map_of (companies (update_pipeline_status default_pipeline ''Acme'' (Application_generated True)))
     (lower ''Acme'') = None"
  by (simp add: update_pipeline_status_def default_pipeline_def)

text \<open>
  C3, amended: when the companies mapping has no entry under the lower-cased name, the
  call returns the pipeline unchanged and creates nothing; when it has one, the
  resulting mapping holds, under that key, a record that carries the written value.
\<close>

theorem upsert_present_or_noop:
  "(map_of (companies p) (lower company_name) = None \<longrightarrow>
      update_pipeline_status p company_name fv = p) \<and>
   (map_of (companies p) (lower company_name) \<noteq> None \<longrightarrow>
      (\<exists>c. map_of (companies (update_pipeline_status p company_name fv)) (lower company_name)
              = Some c
           \<and> has_field fv c))"
proof (intro conjI impI)
  assume "map_of (companies p) (lower company_name) = None"
  then show "update_pipeline_status p company_name fv = p"
    by (simp add: update_pipeline_status_def)
next
  assume "map_of (companies p) (lower company_name) \<noteq> None"
  then obtain c0 where c0: "map_of (companies p) (lower company_name) = Some c0" by auto
  show "\<exists>c. map_of (companies (update_pipeline_status p company_name fv)) (lower company_name)
              = Some c \<and> has_field fv c"
    using c0
    by (cases fv) (simp_all add: update_pipeline_status_def Let_def map_of_alist_update_same)
qed

theorem upsert_present_or_noop_witness:
  "map_of (companies default_pipeline) (lower ''Acme'') = None \<and>
   update_pipeline_status default_pipeline ''Acme'' (Application_generated True) = default_pipeline \<and>
   map_of (companies researched_pipeline) (lower ''Acme'') \<noteq> None \<and>
   (\<exists>c. map_of (companies (update_pipeline_status researched_pipeline ''Acme''
                             (Application_generated True)))
          (lower ''Acme'') = Some c \<and> has_field (Application_generated True) c)"
proof -
  have a: "map_of (companies default_pipeline) (lower ''Acme'') = None"
    by (simp add: default_pipeline_def)
  have b: "map_of (companies researched_pipeline) (lower ''Acme'') \<noteq> None"
    by (simp add: researched_pipeline_def lower_Acme)
  show ?thesis
    using upsert_present_or_noop [of default_pipeline "''Acme''" "Application_generated True"]
      upsert_present_or_noop [of researched_pipeline "''Acme''" "Application_generated True"] a b
    by blast
qed

text \<open>
  C9: applying \<open>_update_pipeline_status\<close> twice with the same company, field and value gives
  the pipeline that applying it once gives.
\<close>

theorem upsert_idempotent:
  "update_pipeline_status (update_pipeline_status p company_name fv) company_name fv
     = update_pipeline_status p company_name fv"
proof (cases "map_of (companies p) (lower company_name)")
  case None
  then show ?thesis by (simp add: update_pipeline_status_def)
next
  case (Some c)
  define c2 where "c2 = (let c1 = set_field fv c in
      if field_name fv = ''application_generated'' \<and> value_truthy fv
      then c1\<lparr>status := Some ''applied''\<rparr>
      else if field_name fv = ''emails_sent'' \<and> value_truthy fv
      then c1\<lparr>status := Some ''outreach_sent''\<rparr> else c1)"
  have first: "update_pipeline_status p company_name fv
      = p\<lparr>companies := AList.update (lower company_name) c2 (companies p)\<rparr>"
    using Some by (simp add: update_pipeline_status_def c2_def Let_def)
  have again: "(let c1 = set_field fv c2 in
      if field_name fv = ''application_generated'' \<and> value_truthy fv
      then c1\<lparr>status := Some ''applied''\<rparr>
      else if field_name fv = ''emails_sent'' \<and> value_truthy fv
      then c1\<lparr>status := Some ''outreach_sent''\<rparr> else c1) = c2"
    by (rule record_write_idem) (rule c2_def)
  show ?thesis
    unfolding first using again
    by (simp add: update_pipeline_status_def Let_def map_of_alist_update_same alist_update_twice)
qed

theorem upsert_idempotent_witness:
  "update_pipeline_status
     (update_pipeline_status researched_pipeline ''Acme'' (Application_generated True))
     ''Acme'' (Application_generated True)
   = update_pipeline_status researched_pipeline ''Acme'' (Application_generated True) \<and>
   map_of (companies (update_pipeline_status researched_pipeline ''Acme''
                        (Application_generated True))) ''acme''
   = Some (acme_researched\<lparr>application_generated := Some True, status := Some ''applied''\<rparr>)"
  using upsert_idempotent [of researched_pipeline "''Acme''" "Application_generated True"]
  by (simp add: update_pipeline_status_def researched_pipeline_def lower_Acme)

section \<open>Properties of the next-action list\<close>

lemma action_key_ge_iff:
  "action_key b \<le> action_key a \<longleftrightarrow>
     priority_order (priority b) < priority_order (priority a) \<or>
     (priority_order (priority a) = priority_order (priority b) \<and> due_date b \<le> due_date a)"
  by (auto simp: action_key_def)

lemma sort_reverse_sorted: "sorted_wrt (\<lambda>a b. k b \<le> k a) (sort_reverse k xs)"
proof -
  have "sorted (map k (sort_key k (rev xs)))" by simp
  then have "sorted_wrt (\<lambda>a b. k a \<le> k b) (sort_key k (rev xs))"
    by (simp add: sorted_map)
  then show ?thesis
    by (simp add: sort_reverse_def sorted_wrt_rev)
qed

lemma sort_reverse_stable:
  "filter (\<lambda>a. k a = v) (sort_reverse k xs) = filter (\<lambda>a. k a = v) xs"
proof -
  have "filter (\<lambda>a. k a = v) (sort_reverse k xs)
          = rev (filter (\<lambda>a. k a = v) (sort_key k (rev xs)))"
    by (simp add: sort_reverse_def rev_filter)
  also have "\<dots> = rev (filter (\<lambda>a. k a = v) (rev xs))"
    by (simp only: sort_key_stable)
  also have "\<dots> = filter (\<lambda>a. k a = v) xs"
    by (simp add: rev_filter)
  finally show ?thesis .
qed

lemma set_sort_reverse: "set (sort_reverse k xs) = set xs"
  by (simp add: sort_reverse_def)

lemma for_each_all:
  assumes "for_each f xs = Inr ys"
    and "\<And>x zs. x \<in> set xs \<Longrightarrow> f x = Inr zs \<Longrightarrow> \<forall>z\<in>set zs. P z"
  shows "\<forall>y\<in>set ys. P y"
  using assms
proof (induction xs arbitrary: ys)
  case Nil
  then show ?case by simp
next
  case (Cons x xs)
  from Cons.prems(1) obtain zs ws where zs: "f x = Inr zs" and ws: "for_each f xs = Inr ws"
    and ys: "ys = zs @ ws"
    by (cases "f x"; cases "for_each f xs") (auto simp: bind_def)
  have "\<forall>z\<in>set zs. P z" by (rule Cons.prems(2) [OF _ zs]) simp
  moreover have "\<forall>y\<in>set ws. P y"
  proof (rule Cons.IH [OF ws])
    fix y vs assume "y \<in> set xs" and "f y = Inr vs"
    then show "\<forall>z\<in>set vs. P z" by (intro Cons.prems(2) [of y vs]) simp_all
  qed
  ultimately show ?case by (auto simp: ys)
qed

lemma email_action_priority:
  assumes "email_action E n e = Inr zs"
  shows "\<forall>z\<in>set zs. priority z = ''medium''"
  using assms
  by (cases "parse_date E (get (send_date e) [])";
      cases "dt_sub (now E) (projr (parse_date E (get (send_date e) [])))")
     (auto simp: email_action_def bind_def Let_def split: if_splits)

lemma company_actions_priority:
  assumes "company_actions E kc = Inr zs"
  shows "\<forall>z\<in>set zs. priority z = ''high'' \<or> priority z = ''medium''"
proof -
  let ?n = "get (name (snd kc)) (fst kc)"
  from assms obtain es where es: "for_each (email_action E ?n) (get (emails_sent (snd kc)) []) = Inr es"
    and zs: "zs = research_action E ?n (snd kc) @ es
                  @ concat (map (interview_action ?n) (get (interviews (snd kc)) []))"
    by (cases "for_each (email_action E ?n) (get (emails_sent (snd kc)) [])")
       (auto simp: company_actions_def bind_def Let_def)
  have "\<forall>z\<in>set es. priority z = ''medium''"
    by (rule for_each_all [OF es]) (rule email_action_priority)
  moreover have "\<forall>z\<in>set (research_action E ?n (snd kc)). priority z = ''high''"
    by (simp add: research_action_def)
  moreover have "\<forall>z\<in>set (concat (map (interview_action ?n) (get (interviews (snd kc)) []))).
                   priority z = ''high''"
    by (auto simp: interview_action_def Let_def split: if_splits)
  ultimately show ?thesis by (auto simp: zs)
qed

lemma collect_actions_priority:
  assumes "collect_actions E p = Inr unsorted"
  shows "\<forall>a\<in>set unsorted. priority a = ''high'' \<or> priority a = ''medium''"
  by (rule for_each_all [OF assms [unfolded collect_actions_def]])
     (rule company_actions_priority)

lemma priority_order_values:
  "priority_order ''high'' = 3" "priority_order ''medium'' = 2"
  by (simp_all add: priority_order_def)


lemma filter_by_action_key:
  assumes "\<forall>a\<in>set xs. priority a = ''high'' \<or> priority a = ''medium''"
    and "pr = ''high'' \<or> pr = ''medium''"
  shows "filter (\<lambda>a. priority a = pr \<and> due_date a = d) xs
           = filter (\<lambda>a. action_key a = (priority_order pr, d)) xs"
  using assms
  by (intro filter_cong refl) (auto simp: action_key_def priority_order_values)

lemma filter_other_priority:
  assumes "\<forall>a\<in>set xs. priority a = ''high'' \<or> priority a = ''medium''"
    and "\<not> (pr = ''high'' \<or> pr = ''medium'')"
  shows "filter (\<lambda>a. priority a = pr \<and> due_date a = d) xs = []"
  using assms by (auto simp: filter_empty_conv)

text \<open>
  C5: a list returned by \<open>_generate_next_actions\<close> has at most 20 items; an item of higher
  priority stands before every item of lower priority, high before medium before low,
  and among equal priorities the items stand by \<open>due_date\<close> descending, in the order of the
  strings; and the items of equal priority and equal due date stand in the order in
  which the iteration over the companies produced them (they are a prefix of those
  items of the unsorted list, the rest being cut off by the limit of 20).
\<close>

theorem next_actions_ordering:
  assumes "generate_next_actions E p = Inr acts"
  shows "length acts \<le> 20 \<and>
    sorted_wrt (\<lambda>a b. spec_priority_before (priority a) (priority b) \<or>
                  (priority a = priority b \<and> due_date b \<le> due_date a)) acts \<and>
    (\<exists>unsorted. collect_actions E p = Inr unsorted \<and>
       (\<forall>pr d. prefix (filter (\<lambda>a. priority a = pr \<and> due_date a = d) acts)
                      (filter (\<lambda>a. priority a = pr \<and> due_date a = d) unsorted)))"
proof -
  from assms obtain unsorted where u: "collect_actions E p = Inr unsorted"
    and acts: "acts = take 20 (sort_reverse action_key unsorted)"
    by (cases "collect_actions E p") (auto simp: generate_next_actions_def bind_def)
  have len: "length acts \<le> 20" by (simp add: acts)
  have hm: "\<forall>a\<in>set unsorted. priority a = ''high'' \<or> priority a = ''medium''"
    by (rule collect_actions_priority [OF u])
  have sub: "set acts \<subseteq> set unsorted"
    using set_take_subset [of 20 "sort_reverse action_key unsorted"]
    by (simp add: acts set_sort_reverse)
  have hm': "\<forall>a\<in>set acts. priority a = ''high'' \<or> priority a = ''medium''"
    using hm sub by blast
  have "sorted_wrt (\<lambda>a b. action_key b \<le> action_key a) (sort_reverse action_key unsorted)"
    by (rule sort_reverse_sorted)
  then have srt0: "sorted_wrt (\<lambda>a b. action_key b \<le> action_key a) acts"
    by (simp add: acts)
  have srt: "sorted_wrt (\<lambda>a b. spec_priority_before (priority a) (priority b) \<or>
                  (priority a = priority b \<and> due_date b \<le> due_date a)) acts"
  proof (rule sorted_wrt_mono_rel [OF _ srt0])
    fix a b assume a: "a \<in> set acts" and b: "b \<in> set acts"
      and le: "action_key b \<le> action_key a"
    from hm' a have pa: "priority a = ''high'' \<or> priority a = ''medium''" by blast
    from hm' b have pb: "priority b = ''high'' \<or> priority b = ''medium''" by blast
    from le pa pb
    show "spec_priority_before (priority a) (priority b) \<or>
            (priority a = priority b \<and> due_date b \<le> due_date a)"
      by (auto simp: action_key_ge_iff priority_order_values spec_priority_before_def)
  qed
  have stab: "prefix (filter (\<lambda>a. priority a = pr \<and> due_date a = d) acts)
                (filter (\<lambda>a. priority a = pr \<and> due_date a = d) unsorted)" for pr d
  proof (cases "pr = ''high'' \<or> pr = ''medium''")
    case True
    have "prefix acts (sort_reverse action_key unsorted)"
      by (simp add: acts take_is_prefix)
    then have "prefix (filter (\<lambda>a. action_key a = (priority_order pr, d)) acts)
                 (filter (\<lambda>a. action_key a = (priority_order pr, d))
                    (sort_reverse action_key unsorted))"
      by (rule filter_mono_prefix)
    then have "prefix (filter (\<lambda>a. action_key a = (priority_order pr, d)) acts)
                 (filter (\<lambda>a. action_key a = (priority_order pr, d)) unsorted)"
      by (simp only: sort_reverse_stable)
    then show ?thesis
      by (simp only: filter_by_action_key [OF hm' True] filter_by_action_key [OF hm True])
  next
    case False
    show ?thesis
      by (simp add: filter_other_priority [OF hm' False] filter_other_priority [OF hm False])
  qed
  show ?thesis using len srt u stab by blast
qed

lemma mixed_next_actions:
  "generate_next_actions sample_env mixed_pipeline =
     Inr [\<lparr>priority = ''high'', action = ''Generate application package'',
            company = ''Acme'', due_date = ''2024-01-03T09:00:00'',
            details = ''Research completed, ready for application generation''\<rparr>,
          \<lparr>priority = ''medium'', action = ''Send follow-up email'',
            company = ''Umbrella'', due_date = ''2024-01-05T09:00:00'',
            details = ''Original email sent 10 days ago''\<rparr>]"
  by code_simp

lemma mixed_collect_actions:
  "collect_actions sample_env mixed_pipeline =
     Inr [\<lparr>priority = ''medium'', action = ''Send follow-up email'',
            company = ''Umbrella'', due_date = ''2024-01-05T09:00:00'',
            details = ''Original email sent 10 days ago''\<rparr>,
          \<lparr>priority = ''high'', action = ''Generate application package'',
            company = ''Acme'', due_date = ''2024-01-03T09:00:00'',
            details = ''Research completed, ready for application generation''\<rparr>]"
  by code_simp


theorem next_actions_ordering_witness:
  "\<exists>acts unsorted.
     generate_next_actions sample_env mixed_pipeline = Inr acts \<and>
     collect_actions sample_env mixed_pipeline = Inr unsorted \<and>
     map company unsorted = [''Umbrella'', ''Acme''] \<and>
     map company acts = [''Acme'', ''Umbrella''] \<and>
     map priority acts = [''high'', ''medium''] \<and>
     map due_date acts = [''2024-01-03T09:00:00'', ''2024-01-05T09:00:00''] \<and>
     length acts \<le> 20 \<and>
     sorted_wrt (\<lambda>a b. spec_priority_before (priority a) (priority b) \<or>
                   (priority a = priority b \<and> due_date b \<le> due_date a)) acts"
  using next_actions_ordering [OF mixed_next_actions] mixed_next_actions mixed_collect_actions
  by simp

section \<open>Properties of the success metrics\<close>

text \<open>
  C6: each of the three rates is computed without an exception, and is 0 when its
  denominator is 0: no emails sent, no company counted as an application, no company
  with an interview.
\<close>

theorem rates_zero_division_safe:
  "(\<exists>r. email_response_rate p = Inr r \<and> (total_emails p = 0 \<longrightarrow> r = 0)) \<and>
   (\<exists>r. interview_conversion_rate p = Inr r \<and> (total_applications p = 0 \<longrightarrow> r = 0)) \<and>
   (\<exists>r. offer_conversion_rate p = Inr r \<and> (interviews_scheduled_count p = 0 \<longrightarrow> r = 0))"
  by (simp add: email_response_rate_def interview_conversion_rate_def offer_conversion_rate_def
      truediv_def)

theorem rates_zero_division_safe_witness:
  "total_emails default_pipeline = 0 \<and> email_response_rate default_pipeline = Inr 0 \<and>
   total_applications default_pipeline = 0 \<and> interview_conversion_rate default_pipeline = Inr 0 \<and>
   interviews_scheduled_count default_pipeline = 0 \<and> offer_conversion_rate default_pipeline = Inr 0"
proof -
  have zeros: "total_emails default_pipeline = 0" "total_applications default_pipeline = 0"
    "interviews_scheduled_count default_pipeline = 0"
    by (simp_all add: total_emails_def total_applications_def interviews_scheduled_count_def
        default_pipeline_def)
  show ?thesis
    using rates_zero_division_safe [of default_pipeline] zeros by auto
qed

text \<open>
  C7 does not hold of the code: the denominator counts the companies whose status is
  exactly \<open>applied\<close>. A pipeline whose one company is \<open>interviewing\<close> and has an interview
  gets the rate 0, where the specification's quotient is 1.
\<close>

theorem interview_rate_denominator_divergence:
  "interviews_scheduled_count globex_pipeline = 1 \<and>
   total_applications globex_pipeline = 0 \<and>
   interview_conversion_rate globex_pipeline = Inr 0 \<and>
   spec_interview_conversion_rate globex_pipeline = 1"
  by code_simp

section \<open>Properties of qualification\<close>

lemma bind_simps [simp]: "bind (Inl e) f = Inl e" "bind (Inr x) f = f x"
  by (simp_all add: bind_def)

lemma for_each_append:
  "for_each f (xs @ ys) = bind (for_each f xs) (\<lambda>as. bind (for_each f ys) (\<lambda>bs. Inr (as @ bs)))"
  by (induction xs) (auto simp: bind_def split: sum.splits)

lemma for_each_skip:
  assumes "f x = Inr []"
  shows "for_each f (xs @ x # ys) = for_each f (xs @ ys)"
  using assms by (simp add: for_each_append bind_def split: sum.splits)

lemma no_actions_of_disqualified:
  assumes "status d = Some ''disqualified''" "get (emails_sent d) [] = []"
    "get (interviews d) [] = []"
  shows "company_actions E (k, d) = Inr []"
  using assms by (simp add: company_actions_def research_action_def get_def Let_def)

lemma next_actions_skip:
  assumes "company_actions E kc = Inr []" "companies (q::pipeline) = before @ kc # after"
  shows "generate_next_actions E q = generate_next_actions E (q\<lparr>companies := before @ after\<rparr>)"
  using assms by (simp add: generate_next_actions_def collect_actions_def for_each_skip)

lemma initech_call:
  "research_company default_config sample_io researched_pipeline ''Initech'' None False
     (Some low_scores)
   = (initech_disqualified,
      researched_pipeline\<lparr>companies := [(''acme'', acme_researched),
                                        (''initech'', initech_disqualified)]\<rparr>)"
  by code_simp

lemma initech_fresh:
  "False \<or> (case map_of (companies researched_pipeline) (company_key_of ''Initech'') of
              None \<Rightarrow> True | Some c \<Rightarrow> \<not> truthy (research_completed c))"
  by code_simp

lemma initech_low:
  "sum_list (map snd (priority_scores_of sample_io (Some low_scores)))
     < min_priority_score default_config"
  by code_simp

lemma researched_actions:
  "generate_next_actions sample_env researched_pipeline =
     Inr [\<lparr>priority = ''high'', action = ''Generate application package'',
            company = ''Acme'', due_date = ''2024-01-03T09:00:00'',
            details = ''Research completed, ready for application generation''\<rparr>]"
  by code_simp

text \<open>
  C4, as stated, fails for a call that is answered from the pipeline: without
  \<open>force_refresh\<close>, a company whose research is already completed is returned as it is
  stored, and the scores of the call are not looked at. Scores summing to 25 against the
  threshold 28 leave the stored status \<open>researched\<close>.
\<close>

theorem early_return_counterexample:
  "sum_list (map snd (priority_scores_of sample_io (Some low_scores))) = 25 \<and>
   min_priority_score default_config = 28 \<and>
   map_option status
     (map_of (companies (snd (research_company default_config sample_io researched_pipeline
                                ''Acme'' None False (Some low_scores))))
        (company_key_of ''Acme'')) = Some (Some ''researched'')"
  by code_simp

text \<open>
  C4, amended: for every research call that is not answered from an already completed
  record (\<open>force_refresh\<close> is set, or the company is absent, or its research is not
  completed) and whose scores sum to less than \<open>min_priority_score\<close>, the record stored
  under the company's key has status \<open>disqualified\<close>, carries the sum as its priority
  score, has \<open>research_completed\<close> false and no research texts. And for every pipeline
  that contains a disqualified record with no emails and no interviews, that record
  contributes no action: the next-action list is the one of the pipeline without it.
\<close>

theorem disqualified_below_threshold:
  assumes fresh: "force_refresh \<or>
      (case map_of (companies p) (company_key_of company_name) of
         None \<Rightarrow> True | Some c \<Rightarrow> \<not> truthy (research_completed c))"
    and low: "sum_list (map snd (priority_scores_of io scores)) < min_priority_score cfg"
  shows "(\<exists>c p'. research_company cfg io p company_name role force_refresh scores = (c, p') \<and>
            map_of (companies p') (company_key_of company_name) = Some c \<and>
            status c = Some ''disqualified'' \<and>
            priority_score c = Some (sum_list (map snd (priority_scores_of io scores))) \<and>
            research_completed c = Some False \<and> research_data c = [] \<and>
            emails_sent c = Some [] \<and> interviews c = Some []) \<and>
         (\<forall>E (q::pipeline) before after k d.
            status d = Some ''disqualified'' \<and> get (emails_sent d) [] = [] \<and>
            get (interviews d) [] = [] \<and> companies q = before @ (k, d) # after \<longrightarrow>
            company_actions E (k, d) = Inr [] \<and>
            generate_next_actions E q
              = generate_next_actions E (q\<lparr>companies := before @ after\<rparr>))"
proof (intro conjI allI impI)
  show "\<exists>c p'. research_company cfg io p company_name role force_refresh scores = (c, p') \<and>
            map_of (companies p') (company_key_of company_name) = Some c \<and>
            status c = Some ''disqualified'' \<and>
            priority_score c = Some (sum_list (map snd (priority_scores_of io scores))) \<and>
            research_completed c = Some False \<and> research_data c = [] \<and>
            emails_sent c = Some [] \<and> interviews c = Some []"
    using fresh low
    by (auto simp: research_company_def Let_def update_conv' split: option.splits)
next
  fix E and q :: pipeline and before after k d
  assume h: "status d = Some ''disqualified'' \<and> get (emails_sent d) [] = [] \<and>
            get (interviews d) [] = [] \<and> companies q = before @ (k, d) # after"
  then show "company_actions E (k, d) = Inr []"
    by (simp add: no_actions_of_disqualified)
  with h show "generate_next_actions E q
                 = generate_next_actions E (q\<lparr>companies := before @ after\<rparr>)"
    by (simp add: next_actions_skip)
qed

theorem disqualified_below_threshold_witness:
  "research_company default_config sample_io researched_pipeline ''Initech'' None False
     (Some low_scores)
   = (initech_disqualified,
      researched_pipeline\<lparr>companies := [(''acme'', acme_researched),
                                        (''initech'', initech_disqualified)]\<rparr>) \<and>
   status initech_disqualified = Some ''disqualified'' \<and>
   company_actions sample_env (''initech'', initech_disqualified) = Inr [] \<and>
   generate_next_actions sample_env
     (researched_pipeline\<lparr>companies := [(''acme'', acme_researched),
                                       (''initech'', initech_disqualified)]\<rparr>)
   = generate_next_actions sample_env researched_pipeline"
proof -
  define p' where "p' = researched_pipeline\<lparr>companies := [(''acme'', acme_researched),
                                        (''initech'', initech_disqualified)]\<rparr>"
  have st: "status initech_disqualified = Some ''disqualified''"
    "get (emails_sent initech_disqualified) [] = []"
    "get (interviews initech_disqualified) [] = []"
    by (simp_all add: initech_disqualified_def get_def)
  have comps: "companies p' = [(''acme'', acme_researched)] @ (''initech'', initech_disqualified) # []"
    by (simp add: p'_def)
  have rest: "p'\<lparr>companies := [(''acme'', acme_researched)] @ []\<rparr> = researched_pipeline"
    by (simp add: p'_def researched_pipeline_def)
  have C: "company_actions sample_env (''initech'', initech_disqualified) = Inr [] \<and>
      generate_next_actions sample_env p'
        = generate_next_actions sample_env (p'\<lparr>companies := [(''acme'', acme_researched)] @ []\<rparr>)"
    by (rule disqualified_below_threshold [OF initech_fresh initech_low, THEN conjunct2, rule_format])
       (intro conjI st comps)
  have D: "generate_next_actions sample_env p' = generate_next_actions sample_env researched_pipeline"
    using C by (simp only: rest)
  show ?thesis
    by (intro conjI) (rule initech_call, rule st(1), rule C [THEN conjunct1], rule D [unfolded p'_def])
qed

section \<open>Properties of the case-story score\<close>

lemma matches_cong:
  assumes "\<forall>k \<in> set kws. sublist k t1 = sublist k t2"
  shows "matches kws t1 = matches kws t2"
proof -
  have "filter (\<lambda>keyword. sublist keyword t1) kws = filter (\<lambda>keyword. sublist keyword t2) kws"
    using assms by (intro filter_cong) auto
  then show ?thesis by (simp add: matches_def)
qed

lemma no_digit_after_removal:
  assumes "map_of st ''results'' = Some (JStr s)"
  shows "results_have_digit (remove_digits st) = Inr False"
  using assms
  by (simp add: results_have_digit_def remove_digits_def map_of_alist_update_same list_ex_iff)

text \<open>
  C8, as stated, fails: the keywords are looked up in the serialized story, which holds
  the results text, so removing the digits can remove a keyword match (\<open>b2b\<close> is a keyword
  of the job analysis) or create one (\<open>reten5tion\<close>). In the first story the difference
  of the two scores is 2.5, not 1.5; in the second the story without digits scores higher.
\<close>

theorem digit_bonus_counterexample:
  "score_case_story_relevance b2b_story ''Senior Product Manager'' b2b_analysis = Inr (5 / 2) \<and>
   score_case_story_relevance (remove_digits b2b_story) ''Senior Product Manager'' b2b_analysis
     = Inr 0 \<and>
   score_case_story_relevance retention_story ''Growth Lead'' \<lparr>job_keywords = None\<rparr>
     = Inr (3 / 2) \<and>
   score_case_story_relevance (remove_digits retention_story) ''Growth Lead''
     \<lparr>job_keywords = None\<rparr> = Inr 2"
  by code_simp

text \<open>
  C8, amended: for every case story whose results text contains a digit, and every role
  and job analysis such that removing the digits from the results text changes the
  occurrence of no keyword (of the job analysis or of the role) in the serialized story,
  the score is the score of the story without the digits plus exactly 1.5, and so is
  strictly higher.
\<close>

theorem quantified_outcome_bonus:
  assumes res: "map_of st ''results'' = Some (JStr s)"
    and dig: "list_ex isdigit_char s"
    and same: "\<forall>k \<in> set (concat (map snd (get (job_keywords ja) []))
                         @ get_role_specific_keywords role).
                 sublist k (story_text st) = sublist k (story_text (remove_digits st))"
  shows "\<exists>x y. score_case_story_relevance st role ja = Inr x \<and>
               score_case_story_relevance (remove_digits st) role ja = Inr y \<and>
               x = y + 3 / 2 \<and> y < x"
proof -
  have d1: "results_have_digit st = Inr True"
    using res dig by (simp add: results_have_digit_def)
  have d2: "results_have_digit (remove_digits st) = Inr False"
    using res by (rule no_digit_after_removal)
  have m1: "matches (concat (map snd (get (job_keywords ja) []))) (story_text st)
          = matches (concat (map snd (get (job_keywords ja) []))) (story_text (remove_digits st))"
    using same by (intro matches_cong) simp
  have m2: "matches (get_role_specific_keywords role) (story_text st)
          = matches (get_role_specific_keywords role) (story_text (remove_digits st))"
    using same by (intro matches_cong) simp
  show ?thesis
    by (simp add: score_case_story_relevance_def Let_def bind_def d1 d2 m1 m2)
qed

lemma conversion_same_keywords:
  "\<forall>k \<in> set (concat (map snd (get (job_keywords conversion_analysis) []))
              @ get_role_specific_keywords ''Growth Product Manager'').
     sublist k (story_text conversion_story)
       = sublist k (story_text (remove_digits conversion_story))"
  by code_simp

lemma conversion_scores:
  "score_case_story_relevance conversion_story ''Growth Product Manager'' conversion_analysis
     = Inr (9 / 2)"
  "score_case_story_relevance (remove_digits conversion_story) ''Growth Product Manager''
     conversion_analysis = Inr 3"
  by code_simp+

theorem quantified_outcome_bonus_witness:
  "map_of conversion_story ''results'' = Some (JStr ''Raised conversion rate to 8.4%'') \<and>
   list_ex isdigit_char ''Raised conversion rate to 8.4%'' \<and>
   (\<exists>x y. score_case_story_relevance conversion_story ''Growth Product Manager''
             conversion_analysis = Inr x \<and>
          score_case_story_relevance (remove_digits conversion_story) ''Growth Product Manager''
             conversion_analysis = Inr y \<and>
          x = 9 / 2 \<and> y = 3 \<and> x = y + 3 / 2 \<and> y < x)"
proof -
  have res: "map_of conversion_story ''results'' = Some (JStr ''Raised conversion rate to 8.4%'')"
    by (simp add: conversion_story_def)
  have dig: "list_ex isdigit_char ''Raised conversion rate to 8.4%''"
    by code_simp
  from quantified_outcome_bonus [OF res dig conversion_same_keywords]
  obtain x y where
    "score_case_story_relevance conversion_story ''Growth Product Manager''
       conversion_analysis = Inr x"
    "score_case_story_relevance (remove_digits conversion_story) ''Growth Product Manager''
       conversion_analysis = Inr y"
    "x = y + 3 / 2" "y < x"
    by blast
  then show ?thesis
    using res dig conversion_scores by auto
qed

section \<open>Properties of the dashboard\<close>

text \<open>An exception inside a loop or a sequence leaves it.\<close>


lemma bind_Inl_iff: "bind (Inl e) f = Inl e"
  by (simp add: bind_def)

lemma foldl_bind_Inl:
  "foldl (\<lambda>acc x. bind acc (f x)) (Inl e) xs = Inl e"
  by (induction xs) (simp_all add: bind_def)

lemma foldl_bind_raises:
  assumes "x \<in> set xs" and "\<And>a. \<exists>e. f x a = Inl e"
  shows "\<exists>e. foldl (\<lambda>acc x. bind acc (f x)) a0 xs = Inl e"
proof -
  obtain ys zs where xs: "xs = ys @ x # zs"
    using assms(1) by (auto dest: split_list)
  obtain e where "bind (foldl (\<lambda>acc x. bind acc (f x)) a0 ys) (f x) = Inl e"
    using assms(2) by (cases "foldl (\<lambda>acc x. bind acc (f x)) a0 ys") (auto simp: bind_def)
  then show ?thesis
    by (simp add: xs foldl_bind_Inl)
qed

lemma counts_this_week_raises:
  assumes "s \<noteq> []" and "fromisoformat E (replace_char CHR ''Z'' ''+00:00'' s) = None"
  shows "counts_this_week E lo hi s = Inl ValueError"
  using assms by (simp add: counts_this_week_def parse_date_def bind_def)

lemma week_emails_raises:
  assumes "e \<in> set es" and "get (send_date e) [] \<noteq> []"
    and "fromisoformat E (replace_char CHR ''Z'' ''+00:00'' (get (send_date e) [])) = None"
  shows "\<exists>err. week_emails E lo hi es = Inl err"
  unfolding week_emails_def
proof (rule foldl_bind_raises [OF assms(1)])
  fix a :: "nat \<times> nat"
  show "\<exists>err. (case a of (sent, responses) \<Rightarrow>
           bind (counts_this_week E lo hi (get (send_date e) [])) (\<lambda>inside.
             Inr (if inside
                  then (sent + 1, if truthy (response_received e) then responses + 1 else responses)
                  else (sent, responses)))) = Inl err"
    by (cases a) (simp add: counts_this_week_raises [OF assms(2,3)] bind_def)
qed

lemma week_company_raises:
  assumes "e \<in> set (get (emails_sent c) [])" and "get (send_date e) [] \<noteq> []"
    and "fromisoformat E (replace_char CHR ''Z'' ''+00:00'' (get (send_date e) [])) = None"
  shows "\<exists>err. week_company E lo hi ws c = Inl err"
proof -
  obtain err where "week_emails E lo hi (get (emails_sent c) []) = Inl err"
    using week_emails_raises [OF assms] by blast
  then show ?thesis
    by (cases "counts_this_week E lo hi (get (research_date c) [])")
       (simp_all add: week_company_def bind_def)
qed


lemma weekly_fold_raises:
  assumes "(k, c) \<in> set (companies (pipeline_data t))"
    and "e \<in> set (get (emails_sent c) [])" and "get (send_date e) [] \<noteq> []"
    and "fromisoformat E (replace_char CHR ''Z'' ''+00:00'' (get (send_date e) [])) = None"
  shows "\<exists>err. foldl (\<lambda>acc kc. bind acc (\<lambda>ws. week_company E lo hi ws (snd kc))) a0
                 (companies (pipeline_data t)) = Inl err"
  by (rule foldl_bind_raises [where f = "\<lambda>kc ws. week_company E lo hi ws (snd kc)",
                              OF assms(1)])
     (simp add: week_company_raises [OF assms(2-4)])

lemma weekly_progress_raises:
  assumes "(k, c) \<in> set (companies (pipeline_data t))"
    and "e \<in> set (get (emails_sent c) [])" and "get (send_date e) [] \<noteq> []"
    and "fromisoformat E (replace_char CHR ''Z'' ''+00:00'' (get (send_date e) [])) = None"
  shows "\<exists>err. generate_weekly_progress E F t = Inl err"
proof -
  let ?lo = "add_days (now E) (- weekday (now E))"
  obtain err where
    "foldl (\<lambda>acc kc. bind acc (\<lambda>ws. week_company E ?lo (add_days ?lo 6) ws (snd kc)))
       (Inr \<lparr>companies_researched = 0, applications_submitted = 0, week_emails_sent = 0,
              week_responses_received = 0, week_interviews_scheduled = 0,
              target_applications = applications_per_week (targets t)\<rparr>)
       (companies (pipeline_data t)) = Inl err"
    using weekly_fold_raises [OF assms] by blast
  then show ?thesis
    by (simp add: generate_weekly_progress_def Let_def bind_def)
qed

lemma bind_raises:
  assumes "\<And>x. \<exists>e. f x = Inl e"
  shows "\<exists>e. bind m f = Inl e"
  using assms by (cases m) (simp_all add: bind_def)

lemma build_dashboard_raises:
  assumes "generate_weekly_progress E F t = Inl err"
  shows "\<exists>err. build_dashboard E F t = Inl err"
  unfolding build_dashboard_def
  apply (rule bind_raises, rule bind_raises, rule bind_raises, rule bind_raises,
         rule bind_raises)
  apply (simp add: assms bind_def)
  done


lemma for_each_raises:
  assumes "x \<in> set xs" and "f x = Inl e"
  shows "\<exists>e'. for_each f xs = Inl e'"
  using assms
proof (induction xs)
  case Nil
  then show ?case by simp
next
  case (Cons y ys)
  show ?case
  proof (cases "f y")
    case (Inl e0)
    then show ?thesis by simp
  next
    case (Inr zs)
    with Cons.prems have "x \<in> set ys" by auto
    then obtain e' where "for_each f ys = Inl e'" using Cons.IH Cons.prems(2) by blast
    then show ?thesis by (simp add: Inr)
  qed
qed

lemma email_action_raises:
  assumes "get (send_date e) [] \<noteq> []" and "\<not> truthy (response_received e)"
    and "fromisoformat E (replace_char CHR ''Z'' ''+00:00'' (get (send_date e) [])) = None"
  shows "email_action E n e = Inl ValueError"
  using assms by (simp add: email_action_def parse_date_def)

lemma next_actions_raises:
  assumes "(k, c) \<in> set (companies p)"
    and "e \<in> set (get (emails_sent c) [])" and "get (send_date e) [] \<noteq> []"
    and "\<not> truthy (response_received e)"
    and "fromisoformat E (replace_char CHR ''Z'' ''+00:00'' (get (send_date e) [])) = None"
  shows "\<exists>err. generate_next_actions E p = Inl err"
proof -
  obtain e1 where "for_each (email_action E (get (name c) k)) (get (emails_sent c) []) = Inl e1"
    using for_each_raises [where f = "email_action E (get (name c) k)", OF assms(2)]
      email_action_raises [OF assms(3-5)] by blast
  then have "company_actions E (k, c) = Inl e1"
    by (simp add: company_actions_def)
  then obtain e2 where "collect_actions E p = Inl e2"
    unfolding collect_actions_def
    using for_each_raises [where f = "company_actions E", OF assms(1)] by blast
  then show ?thesis by (simp add: generate_next_actions_def)
qed

text \<open>
  C2 does not hold of the code: \<open>_generate_next_actions\<close> and \<open>_generate_weekly_progress\<close>
  call \<open>datetime.fromisoformat\<close> outside any \<open>try\<close>, unlike \<open>_calculate_days_since\<close>,
  \<open>_is_upcoming_interview\<close> and \<open>_calculate_due_date\<close>. When some email of some company
  carries a non-empty \<open>send_date\<close> that \<open>fromisoformat\<close> rejects, the weekly progress raises,
  the next-action list raises too if that email has no response, and \<open>generate_dashboard\<close>
  raises without returning a report or writing the file.
\<close>

theorem unparsable_send_date_aborts_dashboard:
  assumes "(k, c) \<in> set (companies (pipeline_data t))"
    and "e \<in> set (get (emails_sent c) [])"
    and "get (send_date e) [] \<noteq> []"
    and "fromisoformat E (replace_char CHR ''Z'' ''+00:00'' (get (send_date e) [])) = None"
  shows "(\<not> truthy (response_received e) \<longrightarrow>
            (\<exists>err. generate_next_actions E (pipeline_data t) = Inl err)) \<and>
         (\<exists>err. generate_weekly_progress E F t = Inl err) \<and>
         (\<exists>err. generate_dashboard E F render t = (Inl err, t))"
proof (intro conjI impI)
  assume "\<not> truthy (response_received e)"
  then show "\<exists>err. generate_next_actions E (pipeline_data t) = Inl err"
    using next_actions_raises [OF assms(1-3) _ assms(4)] by blast
next
  show "\<exists>err. generate_weekly_progress E F t = Inl err"
    by (rule weekly_progress_raises [OF assms])
next
  obtain err where "generate_weekly_progress E F t = Inl err"
    using weekly_progress_raises [OF assms] by blast
  then obtain err' where "build_dashboard E F t = Inl err'"
    using build_dashboard_raises by blast
  then show "\<exists>err. generate_dashboard E F render t = (Inl err, t)"
    by (simp add: generate_dashboard_def)
qed

lemma hooli_next_actions:
  "generate_next_actions sample_env (pipeline_data hooli_tracker) = Inl ValueError"
  by code_simp

lemma hooli_weekly_progress:
  "generate_weekly_progress sample_env sample_numfmt hooli_tracker = Inl ValueError"
  by code_simp


lemma hooli_listed: "(''hooli'', hooli) \<in> set (companies (pipeline_data hooli_tracker))"
  by (simp add: hooli_tracker_def)

lemma hooli_email_sent: "hooli_email \<in> set (get (emails_sent hooli) [])"
  by (simp add: hooli_def get_def)

lemma hooli_send_date: "get (send_date hooli_email) [] = ''not-a-date''"
  by (simp add: hooli_email_def get_def)

lemma not_a_date:
  "fromisoformat sample_env (replace_char CHR ''Z'' ''+00:00'' ''not-a-date'') = None"
  by code_simp

theorem unparsable_send_date_aborts_dashboard_witness:
  "generate_next_actions sample_env (pipeline_data hooli_tracker) = Inl ValueError \<and>
   generate_weekly_progress sample_env sample_numfmt hooli_tracker = Inl ValueError \<and>
   (\<exists>err. generate_dashboard sample_env sample_numfmt sample_render hooli_tracker
             = (Inl err, hooli_tracker))"
proof -
  have ne: "get (send_date hooli_email) [] \<noteq> []"
    by (simp add: hooli_send_date)
  have bad: "fromisoformat sample_env
               (replace_char CHR ''Z'' ''+00:00'' (get (send_date hooli_email) [])) = None"
    by (simp only: hooli_send_date not_a_date)
  show ?thesis
    using unparsable_send_date_aborts_dashboard
            [OF hooli_listed hooli_email_sent ne bad, of sample_numfmt sample_render]
      hooli_next_actions hooli_weekly_progress
    by blast
qed







end
